theory Spec2Isabelle
  imports Main "HOL-Library.Word"
begin

section \<open>JavaScript values as stored by the persistence layer\<close>

text \<open>
  \<^verbatim>\<open>StorageManager\<close> (src/modules/storage.js) keeps every category as a JSON text in
  \<^verbatim>\<open>localStorage\<close>: \<^verbatim>\<open>setItem\<close> writes \<^verbatim>\<open>JSON.stringify(value)\<close> and \<^verbatim>\<open>getItem\<close>
  reads it back with \<^verbatim>\<open>JSON.parse\<close>. \<^verbatim>\<open>importData\<close> stores whatever the payload holds,
  so the stored values are untyped; they are modelled as JSON values.

  Numbers are the integers (chapter ordinals, verse ordinals and millisecond timestamps
  are integers). An object is the list of its own properties in insertion order, read
  with \<open>map_of\<close>; a parsed object has no repeated key. The JavaScript value
  \<^verbatim>\<open>undefined\<close> is \<open>None\<close> of \<open>json option\<close>.
\<close>

datatype json =
    JNull
  | JBool bool
  | JNum int
  | JStr string
  | JArr "json list"
  | JObj "(string \<times> json) list"

text \<open>
  A thrown JavaScript error. \<open>Error m\<close> is \<^verbatim>\<open>new Error(m)\<close>; the message of a
  \<^verbatim>\<open>TypeError\<close> or \<^verbatim>\<open>SyntaxError\<close> raised by the engine is not fixed by the language, and
  \<open>message\<close> leaves it unspecified.
\<close>

datatype error = Error (message: string) | TypeError | SyntaxError

text \<open>\<^verbatim>\<open>!v\<close> is false exactly on the truthy values.\<close>

fun truthy :: "json \<Rightarrow> bool" where
  "truthy JNull = False"
| "truthy (JBool b) = b"
| "truthy (JNum n) = (n \<noteq> 0)"
| "truthy (JStr s) = (s \<noteq> [])"
| "truthy (JArr xs) = True"
| "truthy (JObj kvs) = True"

fun truthy_val :: "json option \<Rightarrow> bool" where
  "truthy_val None = False"
| "truthy_val (Some v) = truthy v"

text \<open>
  \<^verbatim>\<open>v.k\<close> for a property name \<open>k\<close> that no prototype defines (every name read by the
  modelled code is such a name): a \<^verbatim>\<open>TypeError\<close> on \<^verbatim>\<open>null\<close>, the property or
  \<^verbatim>\<open>undefined\<close> on an object, \<^verbatim>\<open>undefined\<close> on every other value.
\<close>

fun field :: "json \<Rightarrow> string \<Rightarrow> json option" where
  "field (JObj kvs) k = map_of kvs k"
| "field v k = None"

definition get_prop :: "json \<Rightarrow> string \<Rightarrow> error + json option" where
  "get_prop v k = (if v = JNull then Inl TypeError else Inr (field v k))"

text \<open>
  \<^verbatim>\<open>a === b\<close> on two values that do not share a reference (one of them was just parsed
  from storage): primitives are compared by value, arrays and objects are never equal.
\<close>

fun strict_eq :: "json option \<Rightarrow> json option \<Rightarrow> bool" where
  "strict_eq None None = True"
| "strict_eq (Some JNull) (Some JNull) = True"
| "strict_eq (Some (JBool a)) (Some (JBool b)) = (a = b)"
| "strict_eq (Some (JNum a)) (Some (JNum b)) = (a = b)"
| "strict_eq (Some (JStr a)) (Some (JStr b)) = (a = b)"
| "strict_eq a b = False"

text \<open>
  An object literal after \<^verbatim>\<open>JSON.stringify\<close> and \<^verbatim>\<open>JSON.parse\<close>: a property whose value
  is \<^verbatim>\<open>undefined\<close> is dropped.
\<close>

fun object_of :: "(string \<times> json option) list \<Rightarrow> (string \<times> json) list" where
  "object_of [] = []"
| "object_of ((k, None) # ps) = object_of ps"
| "object_of ((k, Some v) # ps) = (k, v) # object_of ps"

text \<open>Assignment \<^verbatim>\<open>o.k = v\<close> to an object: in place when the key exists, appended otherwise.\<close>

fun set_field :: "(string \<times> json) list \<Rightarrow> string \<Rightarrow> json \<Rightarrow> (string \<times> json) list" where
  "set_field [] k v = [(k, v)]"
| "set_field ((k', v') # kvs) k v =
     (if k' = k then (k, v) # kvs else (k', v') # set_field kvs k v)"

text \<open>
  \<^verbatim>\<open>o.k = v\<close> on a stored value that is an object; other values are left alone.
\<close>

fun with_field :: "json \<Rightarrow> string \<Rightarrow> json \<Rightarrow> json" where
  "with_field (JObj kvs) k v = JObj (set_field kvs k v)"
| "with_field j k v = j"

section \<open>The local persistence store\<close>

text \<open>
  \<^verbatim>\<open>localStorage\<close> as seen through \<^verbatim>\<open>getItem\<close>: the parsed value under each key, \<open>None\<close>
  when the key is absent (\<^verbatim>\<open>getItem\<close> then returns \<^verbatim>\<open>null\<close>). Writes are taken to succeed.
\<close>

type_synonym storage = "string \<Rightarrow> json option"

definition BOOKMARKS :: string where "BOOKMARKS = ''quran_bookmarks''"

definition HISTORY :: string where "HISTORY = ''quran_history''"

definition THEME :: string where "THEME = ''quran_theme''"

definition USER :: string where "USER = ''quran_user''"

definition SETTINGS :: string where "SETTINGS = ''quran_settings''"

definition getItem :: "storage \<Rightarrow> string \<Rightarrow> json" where
  "getItem st key = (case st key of None \<Rightarrow> JNull | Some v \<Rightarrow> v)"

definition setItem :: "storage \<Rightarrow> string \<Rightarrow> json \<Rightarrow> bool \<times> storage" where
  "setItem st key v = (True, st(key \<mapsto> v))"

text \<open>\<^verbatim>\<open>a || b\<close> on a stored value.\<close>

definition or_else :: "json \<Rightarrow> json \<Rightarrow> json" where
  "or_else a b = (if truthy a then a else b)"

definition default_bookmarks :: json where
  "default_bookmarks = JObj [(''surat'', JArr []), (''ayat'', JArr [])]"

definition default_settings :: json where
  "default_settings = JObj
     [(''autoPlayAudio'', JBool False),
      (''showTransliteration'', JBool True),
      (''showTranslation'', JBool True),
      (''fontSize'', JStr ''medium''),
      (''qariPreference'', JStr ''''),
      (''notificationsEnabled'', JBool True)]"

definition initializeStorage :: "storage \<Rightarrow> storage" where
  "initializeStorage st =
     (let st1 = (if \<not> truthy (getItem st BOOKMARKS)
                 then snd (setItem st BOOKMARKS default_bookmarks) else st);
          st2 = (if \<not> truthy (getItem st1 HISTORY)
                 then snd (setItem st1 HISTORY (JArr [])) else st1);
          st3 = (if \<not> truthy (getItem st2 THEME)
                 then snd (setItem st2 THEME (JStr ''light'')) else st2);
          st4 = (if \<not> truthy (getItem st3 SETTINGS)
                 then snd (setItem st3 SETTINGS default_settings) else st3)
      in st4)"

definition getTheme :: "storage \<Rightarrow> json" where
  "getTheme st = or_else (getItem st THEME) (JStr ''light'')"

definition getBookmarks :: "storage \<Rightarrow> json" where
  "getBookmarks st = or_else (getItem st BOOKMARKS) default_bookmarks"

definition getHistory :: "storage \<Rightarrow> json" where
  "getHistory st = or_else (getItem st HISTORY) (JArr [])"

definition getSettings :: "storage \<Rightarrow> json" where
  "getSettings st = or_else (getItem st SETTINGS) default_settings"

subsection \<open>Bookmarks\<close>

text \<open>
  \<^verbatim>\<open>xs.some(p)\<close> where the callback reads a property of the element: it stops at the first
  match, and throws on a \<^verbatim>\<open>null\<close> element it reaches.
\<close>

fun some_match :: "(json \<Rightarrow> bool) \<Rightarrow> json list \<Rightarrow> error + bool" where
  "some_match p [] = Inr False"
| "some_match p (s # ss) =
     (if s = JNull then Inl TypeError
      else if p s then Inr True
      else some_match p ss)"

text \<open>
  The object literals that \<^verbatim>\<open>addBookmark\<close> puts in front of the list; \<open>now\<close> is \<^verbatim>\<open>Date.now()\<close>.
\<close>

definition surat_bookmark :: "json \<Rightarrow> int \<Rightarrow> json" where
  "surat_bookmark data now = JObj (object_of
     [(''nomor'', field data ''nomor''),
      (''nama'', field data ''nama''),
      (''namaLatin'', field data ''namaLatin''),
      (''jumlahAyat'', field data ''jumlahAyat''),
      (''tempatTurun'', field data ''tempatTurun''),
      (''timestamp'', Some (JNum now))])"

definition ayat_bookmark :: "json \<Rightarrow> int \<Rightarrow> json" where
  "ayat_bookmark data now = JObj (object_of
     [(''suratId'', field data ''suratId''),
      (''suratNama'', field data ''suratNama''),
      (''nomorAyat'', field data ''nomorAyat''),
      (''teksArab'', field data ''teksArab''),
      (''teksIndonesia'', field data ''teksIndonesia''),
      (''timestamp'', Some (JNum now))])"

definition same_surat :: "json \<Rightarrow> json \<Rightarrow> bool" where
  "same_surat data s = strict_eq (field s ''nomor'') (field data ''nomor'')"

definition same_ayat :: "json \<Rightarrow> json \<Rightarrow> bool" where
  "same_ayat data a =
     (strict_eq (field a ''suratId'') (field data ''suratId'')
      \<and> strict_eq (field a ''nomorAyat'') (field data ''nomorAyat''))"

text \<open>
  \<^verbatim>\<open>addBookmark(type, data)\<close>. Reading a property of \<^verbatim>\<open>null\<close>, or calling \<^verbatim>\<open>some\<close> on a
  value that is not an array, throws before anything is written. With \<^verbatim>\<open>data\<close> equal to
  \<^verbatim>\<open>null\<close> either the first callback or the object literal throws.
\<close>

definition addBookmark :: "string \<Rightarrow> json \<Rightarrow> int \<Rightarrow> storage \<Rightarrow> error + (bool \<times> storage)" where
  "addBookmark type data now st =
     (let bookmarks = getBookmarks st in
      if type = ''surat'' then
        (case field bookmarks ''surat'' of
           Some (JArr xs) \<Rightarrow>
             if data = JNull then Inl TypeError
             else
               (case some_match (same_surat data) xs of
                  Inl e \<Rightarrow> Inl e
                | Inr exists \<Rightarrow>
                    Inr (setItem st BOOKMARKS
                      (if \<not> exists
                       then with_field bookmarks ''surat'' (JArr (surat_bookmark data now # xs))
                       else bookmarks)))
         | _ \<Rightarrow> Inl TypeError)
      else if type = ''ayat'' then
        (case field bookmarks ''ayat'' of
           Some (JArr xs) \<Rightarrow>
             if data = JNull then Inl TypeError
             else
               (case some_match (same_ayat data) xs of
                  Inl e \<Rightarrow> Inl e
                | Inr exists \<Rightarrow>
                    Inr (setItem st BOOKMARKS
                      (if \<not> exists
                       then with_field bookmarks ''ayat'' (JArr (ayat_bookmark data now # xs))
                       else bookmarks)))
         | _ \<Rightarrow> Inl TypeError)
      else Inr (setItem st BOOKMARKS bookmarks))"

subsection \<open>History\<close>

text \<open>
  \<^verbatim>\<open>addHistory(suratData)\<close>: \<^verbatim>\<open>filter\<close> visits every element, so a \<^verbatim>\<open>null\<close> element
  throws; so does \<^verbatim>\<open>suratData\<close> equal to \<^verbatim>\<open>null\<close>, in the callback or in the object
  literal.
\<close>

definition history_entry :: "json \<Rightarrow> int \<Rightarrow> json" where
  "history_entry suratData now = JObj (object_of
     [(''nomor'', field suratData ''nomor''),
      (''nama'', field suratData ''nama''),
      (''namaLatin'', field suratData ''namaLatin''),
      (''timestamp'', Some (JNum now))])"

definition addHistory :: "json \<Rightarrow> int \<Rightarrow> storage \<Rightarrow> error + (bool \<times> storage)" where
  "addHistory suratData now st =
     (case getHistory st of
        JArr xs \<Rightarrow>
          if JNull \<in> set xs \<or> suratData = JNull then Inl TypeError
          else
            let history = filter (\<lambda>h. \<not> strict_eq (field h ''nomor'') (field suratData ''nomor'')) xs;
                history = history_entry suratData now # history;
                history = (if length history > 50 then take 50 history else history)
            in Inr (setItem st HISTORY (JArr history))
      | _ \<Rightarrow> Inl TypeError)"

subsection \<open>Import\<close>

text \<open>
  The body of the \<^verbatim>\<open>try\<close> block of \<^verbatim>\<open>importData\<close>. Its argument is the outcome of
  \<^verbatim>\<open>JSON.parse(jsonData)\<close>: the parsed value, or \<^verbatim>\<open>SyntaxError\<close> on a text that is not
  JSON. The result pairs the value returned or the error thrown with the storage at
  that moment.
\<close>

definition importData_try :: "error + json \<Rightarrow> storage \<Rightarrow> (error + bool) \<times> storage" where
  "importData_try parsed st =
     (case parsed of
        Inl e \<Rightarrow> (Inl e, st)
      | Inr data \<Rightarrow>
          (case get_prop data ''version'' of
             Inl e \<Rightarrow> (Inl e, st)
           | Inr version \<Rightarrow>
               if \<not> truthy_val version \<or> \<not> truthy_val (field data ''bookmarks'')
               then (Inl (Error ''Invalid data format''), st)
               else
                 let st1 = (case field data ''bookmarks'' of
                              Some v \<Rightarrow> if truthy v then snd (setItem st BOOKMARKS v) else st
                            | None \<Rightarrow> st);
                     st2 = (case field data ''history'' of
                              Some v \<Rightarrow> if truthy v then snd (setItem st1 HISTORY v) else st1
                            | None \<Rightarrow> st1);
                     st3 = (case field data ''settings'' of
                              Some v \<Rightarrow> if truthy v then snd (setItem st2 SETTINGS v) else st2
                            | None \<Rightarrow> st2);
                     st4 = (case field data ''theme'' of
                              Some v \<Rightarrow> if truthy v then snd (setItem st3 THEME v) else st3
                            | None \<Rightarrow> st3)
                 in (Inr True, st4)))"

text \<open>
  \<^verbatim>\<open>importData\<close> with its \<^verbatim>\<open>catch\<close>: every error is logged and turned into the result
  \<^verbatim>\<open>false\<close>; the storage stays as the \<^verbatim>\<open>try\<close> block left it.
\<close>

definition importData :: "error + json \<Rightarrow> storage \<Rightarrow> bool \<times> storage" where
  "importData parsed st =
     (case importData_try parsed st of
        (Inl e, st') \<Rightarrow> (False, st')
      | (Inr ok, st') \<Rightarrow> (ok, st'))"

section \<open>Strings and numbers of the account simulator\<close>

text \<open>
  A JavaScript string is modelled by a \<open>string\<close>: the sequence of its code units, each
  below 256. \<^verbatim>\<open>toLowerCase\<close> and \<^verbatim>\<open>trim\<close> are written out for that range.
\<close>

definition lower_char :: "char \<Rightarrow> char" where
  "lower_char c =
     (let n = (of_char c :: nat)
      in if (65 \<le> n \<and> n \<le> 90) \<or> (192 \<le> n \<and> n \<le> 222 \<and> n \<noteq> 215)
         then char_of (n + 32) else c)"

definition toLowerCase :: "string \<Rightarrow> string" where
  "toLowerCase s = map lower_char s"

definition is_space :: "char \<Rightarrow> bool" where
  "is_space c = ((of_char c :: nat) \<in> {9, 10, 11, 12, 13, 32, 160})"

definition trim :: "string \<Rightarrow> string" where
  "trim s = rev (dropWhile is_space (rev (dropWhile is_space s)))"

text \<open>\<^verbatim>\<open>Number.prototype.toString(radix)\<close> on an integer, for a radix from 2 to 36.\<close>

definition digit_char :: "nat \<Rightarrow> char" where
  "digit_char d = ''0123456789abcdefghijklmnopqrstuvwxyz'' ! d"

function radix_digits :: "int \<Rightarrow> int \<Rightarrow> string" where
  "radix_digits radix n =
     (if n < radix \<or> radix < 2 then [digit_char (nat n)]
      else radix_digits radix (n div radix) @ [digit_char (nat (n mod radix))])"
  by pat_completeness auto
termination
proof (relation "measure (\<lambda>(radix, n). nat n)")
  show "wf (measure (\<lambda>(radix, n). nat n))" by simp
next
  fix radix n :: int
  assume "\<not> (n < radix \<or> radix < 2)"
  then have "2 \<le> radix" "radix \<le> n" by simp_all
  then have "n div radix < n" by (simp add: int_div_less_self)
  moreover have "0 < n" using \<open>2 \<le> radix\<close> \<open>radix \<le> n\<close> by simp
  ultimately show "((radix, n div radix), (radix, n)) \<in> measure (\<lambda>(radix, n). nat n)"
    by simp
qed

declare radix_digits.simps [simp del]

definition toString :: "int \<Rightarrow> int \<Rightarrow> string" where
  "toString radix n =
     (if n < 0 then CHR ''-'' # radix_digits radix (- n) else radix_digits radix n)"

text \<open>
  \<^verbatim>\<open>hashPassword\<close>: \<^verbatim>\<open>hash = ((hash << 5) - hash) + char; hash = hash & hash\<close> keeps
  \<^verbatim>\<open>hash\<close> a 32-bit signed integer, so each round is arithmetic modulo \<open>2 ^ 32\<close>.
\<close>

definition hash_round :: "32 word \<Rightarrow> char \<Rightarrow> 32 word" where
  "hash_round hash c = (push_bit 5 hash - hash) + of_nat (of_char c)"

definition hashPassword :: "string \<Rightarrow> string" where
  "hashPassword pword =
     (let salt = ''quran_app_salt_2024'';
          combined = pword @ salt
      in toString 10 (sint (foldl hash_round 0 combined)))"

definition verifyPassword :: "string \<Rightarrow> string \<Rightarrow> bool" where
  "verifyPassword pword hashedPassword = (hashPassword pword = hashedPassword)"

text \<open>
  \<^verbatim>\<open>generateUserId\<close>; \<open>random\<close> is the text \<^verbatim>\<open>Math.random().toString(36).substr(2, 9)\<close>
  drawn by the call.
\<close>

definition generateUserId :: "int \<Rightarrow> string \<Rightarrow> string" where
  "generateUserId now random = ''user_'' @ toString 36 now @ ''_'' @ random"

section \<open>The local account simulator\<close>

text \<open>
  The records \<^verbatim>\<open>AuthManager\<close> (src/modules/auth.js) stores. The field \<^verbatim>\<open>id\<close> of a user is
  \<open>user_id\<close>; the fields of the session user and of the session that share a name with a
  field of the user carry the prefix \<open>session_\<close>.
\<close>

record profile =
  displayName :: string
  preferredQari :: string
  fontSize :: string
  theme :: string

record user =
  user_id :: string
  username :: string
  password :: string
  createdAt :: int
  lastLogin :: "int option"
  isActive :: bool
  profile :: profile

record session_user =
  session_user_id :: string
  session_username :: string
  session_displayName :: string
  session_profile :: profile
  loginTime :: int

record session =
  userId :: string
  session_createdAt :: int
  expiresAt :: int
  isValid :: bool

text \<open>
  The three keys of \<^verbatim>\<open>AuthManager.storageKeys\<close> as read by \<^verbatim>\<open>getStorageItem\<close>: \<open>None\<close>
  is \<^verbatim>\<open>null\<close> (key absent). Only \<^verbatim>\<open>AuthManager\<close> writes them, with values of these shapes.
\<close>

record auth_storage =
  USERS :: "user list option"
  CURRENT_USER :: "session_user option"
  SESSION :: "session option"

text \<open>
  \<^verbatim>\<open>Array.prototype.findIndex\<close>, with \<open>None\<close> for \<^verbatim>\<open>-1\<close>.
\<close>

fun findIndex :: "('a \<Rightarrow> bool) \<Rightarrow> 'a list \<Rightarrow> nat option" where
  "findIndex p [] = None"
| "findIndex p (x # xs) = (if p x then Some 0 else map_option Suc (findIndex p xs))"

text \<open>
  \<^verbatim>\<open>this.getStorageItem(this.storageKeys.USERS) || []\<close>.
\<close>

definition stored_users :: "auth_storage \<Rightarrow> user list" where
  "stored_users st = (case USERS st of None \<Rightarrow> [] | Some users \<Rightarrow> users)"

definition logout :: "auth_storage \<Rightarrow> bool \<times> auth_storage" where
  "logout st = (True, st\<lparr>CURRENT_USER := None, SESSION := None\<rparr>)"

definition isSessionValid :: "int \<Rightarrow> session option \<Rightarrow> bool" where
  "isSessionValid now s =
     (case s of
        None \<Rightarrow> False
      | Some session \<Rightarrow>
          if \<not> isValid session then False
          else if now > expiresAt session then False
          else True)"

definition getCurrentUser :: "int \<Rightarrow> auth_storage \<Rightarrow> session_user option \<times> auth_storage" where
  "getCurrentUser now st =
     (let session = SESSION st
      in if session = None \<or> \<not> isSessionValid now session
         then (None, snd (logout st))
         else (CURRENT_USER st, st))"

text \<open>
  \<^verbatim>\<open>createUserSession\<close>, \<^verbatim>\<open>register\<close> and \<^verbatim>\<open>login\<close>. The parameters \<^verbatim>\<open>username\<close> and
  \<^verbatim>\<open>password\<close> of the source are \<open>uname\<close> and \<open>pword\<close> here, since the record fields
  have those names; \<open>now\<close> stands for each \<^verbatim>\<open>Date.now()\<close> reading of one call.
\<close>

definition createUserSession :: "user \<Rightarrow> int \<Rightarrow> auth_storage \<Rightarrow> session_user \<times> auth_storage" where
  "createUserSession u now st =
     (let sessionUser = \<lparr>session_user_id = user_id u,
                         session_username = username u,
                         session_displayName =
                           (if displayName (profile u) \<noteq> [] then displayName (profile u)
                            else username u),
                         session_profile = profile u,
                         loginTime = now\<rparr>;
          session = \<lparr>userId = user_id u,
                     session_createdAt = now,
                     expiresAt = now + 24 * 60 * 60 * 1000,
                     isValid = True\<rparr>
      in (sessionUser, st\<lparr>CURRENT_USER := Some sessionUser, SESSION := Some session\<rparr>))"

definition register ::
  "string \<Rightarrow> string \<Rightarrow> int \<Rightarrow> string \<Rightarrow> auth_storage \<Rightarrow> error + (session_user \<times> auth_storage)" where
  "register uname pword now random st =
     (if uname = [] \<or> pword = [] then Inl (Error ''Username dan password harus diisi'')
      else if length uname < 3 then Inl (Error ''Username minimal 3 karakter'')
      else if length pword < 6 then Inl (Error ''Password minimal 6 karakter'')
      else
        let users = stored_users st
        in case find (\<lambda>u. toLowerCase (username u) = toLowerCase uname) users of
             Some existingUser \<Rightarrow> Inl (Error ''Username sudah digunakan'')
           | None \<Rightarrow>
               let newUser = \<lparr>user_id = generateUserId now random,
                              username = trim uname,
                              password = hashPassword pword,
                              createdAt = now,
                              lastLogin = None,
                              isActive = True,
                              profile = \<lparr>displayName = trim uname,
                                         preferredQari = '''',
                                         fontSize = ''medium'',
                                         theme = ''light''\<rparr>\<rparr>;
                   users = users @ [newUser]
               in Inr (createUserSession newUser now (st\<lparr>USERS := Some users\<rparr>)))"

text \<open>
  \<^verbatim>\<open>users.find\<close> returns the element itself, so \<^verbatim>\<open>user.lastLogin = Date.now()\<close> already
  changes the array at the position found; \<^verbatim>\<open>users[userIndex] = user\<close> then stores the same
  object at the first position with that id.
\<close>

definition login ::
  "string \<Rightarrow> string \<Rightarrow> int \<Rightarrow> auth_storage \<Rightarrow> error + (session_user \<times> auth_storage)" where
  "login uname pword now st =
     (if uname = [] \<or> pword = [] then Inl (Error ''Username dan password harus diisi'')
      else
        let users = stored_users st
        in case findIndex (\<lambda>u. toLowerCase (username u) = toLowerCase uname) users of
             None \<Rightarrow> Inl (Error ''Username tidak ditemukan'')
           | Some found \<Rightarrow>
               if \<not> isActive (users ! found) then Inl (Error ''Akun tidak aktif'')
               else if \<not> verifyPassword pword (password (users ! found))
               then Inl (Error ''Password salah'')
               else
                 let u = (users ! found)\<lparr>lastLogin := Some now\<rparr>;
                     users = users[found := u];
                     users = (case findIndex (\<lambda>v. user_id v = user_id u) users of
                                None \<Rightarrow> users
                              | Some userIndex \<Rightarrow> users[userIndex := u])
                 in Inr (createUserSession u now (st\<lparr>USERS := Some users\<rparr>)))"

text \<open>
  \<^verbatim>\<open>changePassword\<close> starts with \<^verbatim>\<open>getCurrentUser\<close>, which may log out before the
  \<^verbatim>\<open>throw\<close>; the storage is therefore returned with an error as well.
\<close>

definition changePassword ::
  "string \<Rightarrow> string \<Rightarrow> int \<Rightarrow> auth_storage \<Rightarrow> (error + bool) \<times> auth_storage" where
  "changePassword currentPassword newPassword now st =
     (case getCurrentUser now st of
        (None, st1) \<Rightarrow> (Inl (Error ''User tidak login''), st1)
      | (Some currentUser, st1) \<Rightarrow>
          if currentPassword = [] \<or> newPassword = []
          then (Inl (Error ''Password lama dan baru harus diisi''), st1)
          else if length newPassword < 6
          then (Inl (Error ''Password baru minimal 6 karakter''), st1)
          else
            (let users = stored_users st1
             in (case findIndex (\<lambda>u. user_id u = session_user_id currentUser) users of
                   None \<Rightarrow> (Inl (Error ''User tidak ditemukan''), st1)
                 | Some found \<Rightarrow>
                     if \<not> verifyPassword currentPassword (password (users ! found))
                     then (Inl (Error ''Password lama salah''), st1)
                     else
                       let u = (users ! found)\<lparr>password := hashPassword newPassword\<rparr>;
                           users = users[found := u];
                           users = (case findIndex (\<lambda>v. user_id v = session_user_id currentUser) users of
                                      None \<Rightarrow> users
                                    | Some userIndex \<Rightarrow> users[userIndex := u])
                       in (Inr True, st1\<lparr>USERS := Some users\<rparr>))))"

section \<open>The remote content gateway\<close>

text \<open>
  The chapter detail and its verses as \<^verbatim>\<open>getSuratDetail\<close> returns them (src/modules/api.js).
  The per-reciter audio mapping of a verse may be absent.
\<close>

record ayat_data =
  nomorAyat :: int
  teksArab :: string
  teksLatin :: string
  teksIndonesia :: string
  audio :: "(string \<times> string) list option"

record surat_data =
  nomor :: int
  nama :: string
  namaLatin :: string
  jumlahAyat :: int
  tempatTurun :: string
  arti :: string
  deskripsi :: string
  audioFull :: "(string \<times> string) list"
  ayat :: "ayat_data list"

text \<open>
  \<^verbatim>\<open>this.qariMapping[qariKey]\<close>, for keys that are not names of \<^verbatim>\<open>Object.prototype\<close>
  members.
\<close>

definition qariMapping :: "string \<Rightarrow> string option" where
  "qariMapping = map_of
     [(''abdullah_al_juhany'', ''01''),
      (''abdul_muhsin_al_qasim'', ''02''),
      (''abdurrahman_as_sudais'', ''03''),
      (''ibrahim_al_dossari'', ''04''),
      (''misyari_rasyid_al_afasy'', ''05'')]"

text \<open>
  \<^verbatim>\<open>getSuratDetail\<close>. The parameter \<open>fetchAPI\<close> is the outcome of the request for an
  endpoint: the \<^verbatim>\<open>data\<close> member of the response, or the error \<^verbatim>\<open>fetchAPI\<close> throws.
  The returned object copies the fields of \<^verbatim>\<open>data\<close> one by one.
\<close>

definition getSuratDetail :: "(string \<Rightarrow> error + surat_data) \<Rightarrow> int \<Rightarrow> error + surat_data" where
  "getSuratDetail fetchAPI suratId =
     (case (if suratId = 0 \<or> suratId < 1 \<or> suratId > 114
            then Inl (Error ''ID surat tidak valid'')
            else fetchAPI (''/surat/'' @ toString 10 suratId)) of
        Inl e \<Rightarrow> Inl (Error (''Gagal memuat detail surat: '' @ message e))
      | Inr d \<Rightarrow> Inr d)"

text \<open>
  \<^verbatim>\<open>getAyatAudioUrl\<close>. The result is the value of \<^verbatim>\<open>ayat.audio[qariId]\<close>, \<open>None\<close> when it
  is \<^verbatim>\<open>undefined\<close>; for a key outside \<^verbatim>\<open>qariMapping\<close> the property read is
  \<^verbatim>\<open>ayat.audio[undefined]\<close>, the property named \<^verbatim>\<open>undefined\<close>.
\<close>

definition getAyatAudioUrl ::
  "(string \<Rightarrow> error + surat_data) \<Rightarrow> int \<Rightarrow> int \<Rightarrow> string \<Rightarrow> error + string option" where
  "getAyatAudioUrl fetchAPI suratId ayatNumber qariKey =
     (case (case getSuratDetail fetchAPI suratId of
              Inl e \<Rightarrow> Inl e
            | Inr suratDetail \<Rightarrow>
                (case find (\<lambda>a. nomorAyat a = ayatNumber) (ayat suratDetail) of
                   None \<Rightarrow> Inl (Error ''Audio tidak tersedia untuk ayat ini'')
                 | Some a \<Rightarrow>
                     (case audio a of
                        None \<Rightarrow> Inl (Error ''Audio tidak tersedia untuk ayat ini'')
                      | Some mapping \<Rightarrow>
                          (case qariMapping qariKey of
                             None \<Rightarrow> Inr (map_of mapping ''undefined'')
                           | Some qariId \<Rightarrow> Inr (map_of mapping qariId))))) of
        Inl e \<Rightarrow> Inl (Error (''Gagal mendapatkan URL audio: '' @ message e))
      | Inr url \<Rightarrow> Inr url)"

text \<open>
  The synchronous \<^verbatim>\<open>getAudioUrl(suratId, ayatNumber, qariKey)\<close> (the second definition of
  that name, which is the one the class keeps) checks the reciter key first.
\<close>

definition qariNames :: "string \<Rightarrow> string option" where
  "qariNames = map_of
     [(''abdullah_al_juhany'', ''Abdullah-Al-Juhany''),
      (''abdul_muhsin_al_qasim'', ''Abdul-Muhsin-Al-Qasim''),
      (''abdurrahman_as_sudais'', ''Abdurrahman-as-Sudais''),
      (''ibrahim_al_dossari'', ''Ibrahim-Al-Dossari''),
      (''misyari_rasyid_al_afasy'', ''Misyari-Rasyid-Al-Afasi'')]"

definition padStart3 :: "string \<Rightarrow> string" where
  "padStart3 s = replicate (3 - length s) CHR ''0'' @ s"

definition getAudioUrl :: "int \<Rightarrow> int \<Rightarrow> string \<Rightarrow> error + string" where
  "getAudioUrl suratId ayatNumber qariKey =
     (case qariMapping qariKey of
        None \<Rightarrow> Inl (Error ''Qari tidak valid'')
      | Some qariId \<Rightarrow>
          Inr (''https://cdn.equran.id/audio-partial/''
               @ (case qariNames qariKey of None \<Rightarrow> ''undefined'' | Some qariName \<Rightarrow> qariName)
               @ ''/'' @ padStart3 (toString 10 suratId) @ padStart3 (toString 10 ayatNumber)
               @ ''.mp3''))"

subsection \<open>Memoization\<close>

record 'v cached =
  data :: 'v
  timestamp :: int

text \<open>
  \<^verbatim>\<open>getCachedData\<close>. The producer \<^verbatim>\<open>fetchFunction\<close> acts on the world outside the cache
  (\<open>'w\<close>) and returns a value or throws; \<open>now\<close> is the clock when the entry is checked,
  \<open>later\<close> the clock when the produced value is stored. A producer that throws leaves
  the error to the caller, after the stale entry was deleted.
\<close>

definition getCachedData ::
  "'k \<Rightarrow> ('w \<Rightarrow> (error + 'v) \<times> 'w) \<Rightarrow> int \<Rightarrow> int \<Rightarrow> ('k \<Rightarrow> 'v cached option) \<times> 'w
     \<Rightarrow> (error + 'v) \<times> ('k \<Rightarrow> 'v cached option) \<times> 'w" where
  "getCachedData key fetchFunction now later s =
     (let (cache, world) = s;
          hit = (case cache key of
                   Some c \<Rightarrow> if now - timestamp c < 3600000 then Some (data c) else None
                 | None \<Rightarrow> None)
      in case hit of
           Some v \<Rightarrow> (Inr v, cache, world)
         | None \<Rightarrow>
             (let cache1 = cache(key := None);
                  (r, world1) = fetchFunction world
              in case r of
                   Inl e \<Rightarrow> (Inl e, cache1, world1)
                 | Inr d \<Rightarrow> (Inr d, cache1(key \<mapsto> \<lparr>data = d, timestamp = later\<rparr>), world1)))"

section \<open>Notions used to state the properties\<close>

text \<open>
  A run of \<^verbatim>\<open>addHistory\<close> calls, each with the clock it reads; an exception ends the run.
\<close>

fun addHistory_all :: "(json \<times> int) list \<Rightarrow> storage \<Rightarrow> error + storage" where
  "addHistory_all [] st = Inr st"
| "addHistory_all ((suratData, now) # calls) st =
     (case addHistory suratData now st of
        Inl e \<Rightarrow> Inl e
      | Inr (ok, st') \<Rightarrow> addHistory_all calls st')"

text \<open>
  The chapter id and the visit time of a stored history entry, and the three properties
  of a stored history: one entry per chapter id, most recent first, and (for the clock
  of the next call) no entry from the future.
\<close>

definition nomor_of :: "json \<Rightarrow> json option" where
  "nomor_of h = field h ''nomor''"

definition time_of :: "json \<Rightarrow> int option" where
  "time_of h = (case field h ''timestamp'' of Some (JNum t) \<Rightarrow> Some t | _ \<Rightarrow> None)"

definition one_per_chapter :: "json list \<Rightarrow> bool" where
  "one_per_chapter xs = distinct (map nomor_of xs)"

definition not_older :: "json \<Rightarrow> json \<Rightarrow> bool" where
  "not_older a b = (case (time_of a, time_of b) of (Some s, Some t) \<Rightarrow> t \<le> s | _ \<Rightarrow> False)"

definition recent_first :: "json list \<Rightarrow> bool" where
  "recent_first xs = sorted_wrt not_older xs"

definition visited_by :: "int \<Rightarrow> json \<Rightarrow> bool" where
  "visited_by now h = (case time_of h of Some t \<Rightarrow> t \<le> now | None \<Rightarrow> False)"

text \<open>
  A call whose chapter summary has a number as \<^verbatim>\<open>nomor\<close>, and such a summary.
\<close>

definition chapter_call :: "json \<times> int \<Rightarrow> bool" where
  "chapter_call c = (case field (fst c) ''nomor'' of Some (JNum n) \<Rightarrow> True | _ \<Rightarrow> False)"

definition surat :: "int \<Rightarrow> string \<Rightarrow> string \<Rightarrow> json" where
  "surat n name latin =
     JObj [(''nomor'', JNum n), (''nama'', JStr name), (''namaLatin'', JStr latin)]"

text \<open>
  The two stored bookmark lists, and the uniqueness key of a verse bookmark.
\<close>

definition surat_list :: "storage \<Rightarrow> json option" where
  "surat_list st = field (getBookmarks st) ''surat''"

definition ayat_list :: "storage \<Rightarrow> json option" where
  "ayat_list st = field (getBookmarks st) ''ayat''"

definition ayat_key :: "json \<Rightarrow> json option \<times> json option" where
  "ayat_key a = (field a ''suratId'', field a ''nomorAyat'')"

text \<open>
  Calls of the two incremental operations. A call that throws leaves the storage as it
  was, since both operations write last.
\<close>

datatype call = AddHistory json int | AddBookmark string json int

fun perform :: "call \<Rightarrow> storage \<Rightarrow> storage" where
  "perform (AddHistory suratData now) st =
     (case addHistory suratData now st of Inl e \<Rightarrow> st | Inr (ok, st') \<Rightarrow> st')"
| "perform (AddBookmark type item now) st =
     (case addBookmark type item now st of Inl e \<Rightarrow> st | Inr (ok, st') \<Rightarrow> st')"

fun perform_all :: "call list \<Rightarrow> storage \<Rightarrow> storage" where
  "perform_all [] st = st"
| "perform_all (c # cs) st = perform_all cs (perform c st)"

definition is_num :: "json option \<Rightarrow> bool" where
  "is_num v = (case v of Some (JNum n) \<Rightarrow> True | _ \<Rightarrow> False)"

text \<open>
  A call is typed when the ids it carries are numbers.
\<close>

fun typed_call :: "call \<Rightarrow> bool" where
  "typed_call (AddHistory suratData now) = is_num (field suratData ''nomor'')"
| "typed_call (AddBookmark type item now) =
     (if type = ''surat'' then is_num (field item ''nomor'')
      else if type = ''ayat'' then is_num (field item ''suratId'') \<and> is_num (field item ''nomorAyat'')
      else True)"

definition incremental_inv :: "storage \<Rightarrow> bool" where
  "incremental_inv st =
     (\<exists>hs ss vs. getHistory st = JArr hs \<and> length hs \<le> 50 \<and> one_per_chapter hs
        \<and> surat_list st = Some (JArr ss) \<and> distinct (map nomor_of ss)
        \<and> ayat_list st = Some (JArr vs) \<and> distinct (map ayat_key vs)
        \<and> JNull \<notin> set hs \<and> JNull \<notin> set ss \<and> JNull \<notin> set vs)"

text \<open>
  The six keys of a settings record, and a value that has them all.
\<close>

definition setting_keys :: "string list" where
  "setting_keys = [''autoPlayAudio'', ''showTransliteration'', ''showTranslation'',
                   ''fontSize'', ''qariPreference'', ''notificationsEnabled'']"

definition fully_populated :: "json \<Rightarrow> bool" where
  "fully_populated settings = list_all (\<lambda>k. field settings k \<noteq> None) setting_keys"

subsection \<open>Sample data\<close>

definition first_verse :: json where
  "first_verse = JObj [(''suratId'', JNum 1), (''suratNama'', JStr ''Al-Fatihah''),
                       (''nomorAyat'', JNum 1), (''teksArab'', JStr ''bismillah''),
                       (''teksIndonesia'', JStr ''Dengan nama Allah'')]"

definition unchecked_payload :: json where
  "unchecked_payload = JObj
     [(''version'', JStr ''1.0''),
      (''bookmarks'', JObj
         [(''surat'', JArr [JObj [(''nomor'', JNum 1)], JObj [(''nomor'', JNum 1)]]),
          (''ayat'', JArr [JObj [(''suratId'', JNum 1), (''nomorAyat'', JNum 1)],
                           JObj [(''suratId'', JNum 1), (''nomorAyat'', JNum 1)]])]),
      (''history'', JArr (replicate 51 (JObj [(''nomor'', JNum 1)])))]"

definition partial_settings_payload :: json where
  "partial_settings_payload = JObj
     [(''version'', JStr ''1.0''),
      (''bookmarks'', JObj [(''surat'', JArr []), (''ayat'', JArr [])]),
      (''settings'', JObj [(''fontSize'', JStr ''large'')])]"

definition no_accounts :: auth_storage where
  "no_accounts = \<lparr>USERS = Some [], CURRENT_USER = None, SESSION = None\<rparr>"

definition amina_session :: auth_storage where
  "amina_session =
     \<lparr>USERS = Some [],
      CURRENT_USER = Some \<lparr>session_user_id = ''user_a_b'', session_username = ''amina'',
                            session_displayName = ''amina'',
                            session_profile = \<lparr>displayName = ''amina'', preferredQari = '''',
                                                 fontSize = ''medium'', theme = ''light''\<rparr>,
                            loginTime = 1000\<rparr>,
      SESSION = Some \<lparr>userId = ''user_a_b'', session_createdAt = 1000,
                       expiresAt = 86401000, isValid = True\<rparr>\<rparr>"

definition logged_in :: auth_storage where
  "logged_in =
     \<lparr>USERS = Some [\<lparr>user_id = ''user_a_b'', username = ''amina'',
                       password = hashPassword ''secret1'', createdAt = 1000,
                       lastLogin = None, isActive = True,
                       profile = \<lparr>displayName = ''amina'', preferredQari = [],
                                   fontSize = ''medium'', theme = ''light''\<rparr>\<rparr>],
      CURRENT_USER = CURRENT_USER amina_session, SESSION = SESSION amina_session\<rparr>"

definition al_fatihah :: surat_data where
  "al_fatihah = \<lparr>nomor = 1, nama = ''al-Fatihah'', namaLatin = ''Al-Fatihah'', jumlahAyat = 7,
     tempatTurun = ''Mekah'', arti = ''Pembukaan'', deskripsi = '''', audioFull = [],
     ayat = [\<lparr>nomorAyat = 1, teksArab = '''', teksLatin = '''', teksIndonesia = '''',
              audio = Some [(''01'', ''https://cdn.equran.id/audio-partial/Abdullah-Al-Juhany/001001.mp3''),
                            (''05'', ''https://cdn.equran.id/audio-partial/Misyari-Rasyid-Al-Afasi/001001.mp3'')]\<rparr>,
             \<lparr>nomorAyat = 2, teksArab = '''', teksLatin = '''', teksIndonesia = '''',
              audio = None\<rparr>]\<rparr>"

section \<open>Import of a malformed payload\<close>

text \<open>
  C1. For every import payload that lacks the \<^verbatim>\<open>version\<close> field or the \<^verbatim>\<open>bookmarks\<close>
  field, the import fails with the format error and applies nothing. \<^verbatim>\<open>importData\<close>
  raises \<^verbatim>\<open>Invalid data format\<close> inside its \<^verbatim>\<open>try\<close> block (for every payload other than
  \<^verbatim>\<open>null\<close>, on which the property read itself throws), its \<^verbatim>\<open>catch\<close> turns the error
  into the result \<^verbatim>\<open>false\<close>, and the whole storage, hence bookmarks, history, settings and
  theme, is exactly what it was before the call.
\<close>

theorem importData_missing_field:
  assumes "field payload ''version'' = None \<or> field payload ''bookmarks'' = None"
  shows "importData (Inr payload) st = (False, st)
         \<and> (payload \<noteq> JNull \<longrightarrow>
              importData_try (Inr payload) st = (Inl (Error ''Invalid data format''), st))"
  using assms
  by (auto simp: importData_def importData_try_def get_prop_def)

theorem importData_missing_field_witness:
  "importData (Inr (JObj [(''bookmarks'', JObj [(''surat'', JArr []), (''ayat'', JArr [])]),
                          (''history'', JArr [])]))
              (initializeStorage Map.empty)
     = (False, initializeStorage Map.empty)
   \<and> importData_try (Inr (JObj [(''bookmarks'', JObj [(''surat'', JArr []), (''ayat'', JArr [])]),
                                (''history'', JArr [])]))
                    (initializeStorage Map.empty)
     = (Inl (Error ''Invalid data format''), initializeStorage Map.empty)"
  using importData_missing_field
          [of "JObj [(''bookmarks'', JObj [(''surat'', JArr []), (''ayat'', JArr [])]),
                     (''history'', JArr [])]" "initializeStorage Map.empty"]
  by simp

section \<open>Reading history\<close>

subsection \<open>One call\<close>

lemma strict_eq_num: "strict_eq a (Some (JNum n)) = (a = Some (JNum n))"
  by (cases "(a, Some (JNum n))" rule: strict_eq.cases) auto

lemma object_of_keys: "k \<notin> fst ` set ps \<Longrightarrow> map_of (object_of ps) k = None"
  by (induction ps rule: object_of.induct) auto

lemma map_of_object_of:
  "distinct (map fst ps) \<Longrightarrow>
   map_of (object_of ps) k = (case map_of ps k of None \<Rightarrow> None | Some r \<Rightarrow> r)"
  by (induction ps rule: object_of.induct) (auto simp: object_of_keys)

lemma field_history_entry_timestamp:
  "field (history_entry d now) ''timestamp'' = Some (JNum now)"
  by (simp add: history_entry_def map_of_object_of)

lemma field_history_entry_nomor:
  "field (history_entry d now) ''nomor'' = field d ''nomor''"
  by (simp add: history_entry_def map_of_object_of)

lemma addHistory_step:
  assumes "getHistory st = JArr xs" "JNull \<notin> set xs" "d \<noteq> JNull"
  shows "addHistory d now st =
           Inr (True, st(HISTORY \<mapsto> JArr (take 50 (history_entry d now #
                  filter (\<lambda>h. \<not> strict_eq (field h ''nomor'') (field d ''nomor'')) xs))))"
  using assms by (simp add: addHistory_def setItem_def Let_def)

lemma getHistory_upd: "getHistory (st(HISTORY \<mapsto> JArr ys)) = JArr ys"
  by (simp add: getHistory_def getItem_def or_else_def)

lemma time_of_history_entry: "time_of (history_entry d now) = Some now"
  by (simp add: time_of_def field_history_entry_timestamp)

lemma nomor_of_history_entry: "nomor_of (history_entry d now) = field d ''nomor''"
  by (simp add: nomor_of_def field_history_entry_nomor)

lemma one_per_chapter_step:
  assumes "one_per_chapter xs" "field d ''nomor'' = Some (JNum n)"
  shows "one_per_chapter (take 50 (history_entry d now #
           filter (\<lambda>h. \<not> strict_eq (field h ''nomor'') (field d ''nomor'')) xs))"
proof -
  let ?ys = "filter (\<lambda>h. \<not> strict_eq (field h ''nomor'') (field d ''nomor'')) xs"
  have "distinct (map nomor_of ?ys)"
    using assms(1) by (simp add: one_per_chapter_def distinct_map_filter)
  moreover have "field d ''nomor'' \<notin> set (map nomor_of ?ys)"
    by (auto simp: assms(2) strict_eq_num nomor_of_def)
  ultimately have "distinct (map nomor_of (history_entry d now # ?ys))"
    by (simp add: nomor_of_history_entry)
  then have "distinct (take 50 (map nomor_of (history_entry d now # ?ys)))"
    by (rule distinct_take)
  then show ?thesis
    by (simp add: one_per_chapter_def take_map)
qed

lemma recent_first_step:
  assumes "recent_first xs" "list_all (visited_by now) xs"
  shows "recent_first (take 50 (history_entry d now # filter P xs))"
proof -
  have "sorted_wrt not_older (filter P xs)"
    using assms(1) by (simp add: recent_first_def sorted_wrt_filter)
  moreover have "\<forall>h \<in> set (filter P xs). not_older (history_entry d now) h"
    using assms(2)
    by (auto simp: list_all_iff visited_by_def not_older_def time_of_history_entry
             split: option.splits)
  ultimately have "sorted_wrt not_older (history_entry d now # filter P xs)"
    by simp
  then show ?thesis
    unfolding recent_first_def by (rule sorted_wrt_take)
qed

lemma visited_by_step:
  assumes "list_all (visited_by now) xs" "now \<le> later"
  shows "list_all (visited_by later) (take 50 (history_entry d now # filter P xs))"
proof -
  have "\<forall>h \<in> set (history_entry d now # filter P xs). visited_by later h"
    using assms
    by (auto simp: list_all_iff visited_by_def time_of_history_entry split: option.splits)
  then show ?thesis
    by (metis in_set_takeD list_all_iff)
qed

lemma no_null_step:
  assumes "JNull \<notin> set xs"
  shows "JNull \<notin> set (take 50 (history_entry d now # filter P xs))"
proof
  assume "JNull \<in> set (take 50 (history_entry d now # filter P xs))"
  then have "JNull \<in> set (history_entry d now # filter P xs)"
    by (rule in_set_takeD)
  with assms show False
    by (auto simp: history_entry_def)
qed

lemma chapter_call_not_null: "chapter_call (d, now) \<Longrightarrow> d \<noteq> JNull"
  by (auto simp: chapter_call_def)

lemma chapter_call_nomor: "chapter_call (d, now) \<Longrightarrow> \<exists>n. field d ''nomor'' = Some (JNum n)"
  by (auto simp: chapter_call_def split: option.splits json.splits)

lemma addHistory_cap:
  assumes "addHistory d now st1 = Inr (ok, st2)"
  shows "\<exists>zs. getHistory st2 = JArr zs \<and> length zs \<le> 50"
proof -
  from assms obtain xs where xs: "getHistory st1 = JArr xs"
    by (cases "getHistory st1") (auto simp: addHistory_def)
  with assms have nn: "JNull \<notin> set xs" "d \<noteq> JNull"
    by (auto simp: addHistory_def split: if_splits)
  from assms addHistory_step [OF xs nn, of now]
  have "st2 = st1(HISTORY \<mapsto> JArr (take 50 (history_entry d now #
          filter (\<lambda>h. \<not> strict_eq (field h ''nomor'') (field d ''nomor'')) xs)))"
    by simp
  then show ?thesis by (simp add: getHistory_upd)
qed

subsection \<open>Runs of calls\<close>

lemma addHistory_all_ok:
  assumes "getHistory st = JArr xs"
    and "JNull \<notin> set xs" "one_per_chapter xs" "recent_first xs" "length xs \<le> 50"
    and "list_all chapter_call calls" "sorted (map snd calls)"
    and "\<forall>t \<in> set (map snd calls). list_all (visited_by t) xs"
  shows "\<exists>st' ys. addHistory_all calls st = Inr st' \<and> getHistory st' = JArr ys
           \<and> JNull \<notin> set ys \<and> one_per_chapter ys \<and> recent_first ys \<and> length ys \<le> 50
           \<and> (calls \<noteq> [] \<longrightarrow> hd ys = history_entry (fst (last calls)) (snd (last calls)))"
  using assms
proof (induction calls arbitrary: st xs)
  case Nil
  then show ?case by simp
next
  case (Cons c calls)
  obtain d now where c: "c = (d, now)" by (cases c)
  let ?ys = "take 50 (history_entry d now #
               filter (\<lambda>h. \<not> strict_eq (field h ''nomor'') (field d ''nomor'')) xs)"
  let ?st = "st(HISTORY \<mapsto> JArr ?ys)"
  from Cons.prems c have call: "chapter_call (d, now)" by simp
  then obtain n where n: "field d ''nomor'' = Some (JNum n)"
    using chapter_call_nomor by blast
  have step: "addHistory d now st = Inr (True, ?st)"
    using Cons.prems(1,2) chapter_call_not_null [OF call] by (rule addHistory_step)
  have now: "list_all (visited_by now) xs"
    using Cons.prems(8) c by simp
  have 1: "getHistory ?st = JArr ?ys" by (rule getHistory_upd)
  have 2: "JNull \<notin> set ?ys" using Cons.prems(2) by (rule no_null_step)
  have 3: "one_per_chapter ?ys" using Cons.prems(3) n by (rule one_per_chapter_step)
  have 4: "recent_first ?ys" using Cons.prems(4) now by (rule recent_first_step)
  have 5: "length ?ys \<le> 50" by simp
  have 6: "list_all chapter_call calls" using Cons.prems(6) by simp
  have 7: "sorted (map snd calls)" using Cons.prems(7) by simp
  have 8: "\<forall>t \<in> set (map snd calls). list_all (visited_by t) ?ys"
  proof
    fix t assume "t \<in> set (map snd calls)"
    then have "now \<le> t" using Cons.prems(7) c by auto
    with now show "list_all (visited_by t) ?ys" by (rule visited_by_step)
  qed
  from Cons.IH [OF 1 2 3 4 5 6 7 8]
  obtain st' ys where r: "addHistory_all calls ?st = Inr st'" "getHistory st' = JArr ys"
    "JNull \<notin> set ys" "one_per_chapter ys" "recent_first ys" "length ys \<le> 50"
    "calls \<noteq> [] \<longrightarrow> hd ys = history_entry (fst (last calls)) (snd (last calls))"
    by blast
  have run: "addHistory_all (c # calls) st = Inr st'"
    using step r(1) c by simp
  have front: "hd ys = history_entry (fst (last (c # calls))) (snd (last (c # calls)))"
  proof (cases "calls = []")
    case True
    with r(1,2) 1 have "ys = ?ys" by simp
    with True c show ?thesis by simp
  next
    case False
    with r(7) show ?thesis by simp
  qed
  from run r(2-6) front show ?case by blast
qed

lemma addHistory_x_y_x:
  assumes "x \<noteq> y" "getHistory st0 = JArr []"
  shows "\<exists>st'. addHistory_all [(surat x nx lx, t1), (surat y ny ly, t2), (surat x nx lx, t3)] st0
               = Inr st'
           \<and> getHistory st' = JArr [history_entry (surat x nx lx) t3, history_entry (surat y ny ly) t2]"
proof -
  let ?X = "surat x nx lx" and ?Y = "surat y ny ly"
  have fx: "field ?X ''nomor'' = Some (JNum x)" and fy: "field ?Y ''nomor'' = Some (JNum y)"
    by (simp_all add: surat_def)
  have nx: "?X \<noteq> JNull" and ny: "?Y \<noteq> JNull" by (simp_all add: surat_def)
  let ?s1 = "st0(HISTORY \<mapsto> JArr [history_entry ?X t1])"
  let ?s2 = "st0(HISTORY \<mapsto> JArr [history_entry ?Y t2, history_entry ?X t1])"
  let ?s3 = "st0(HISTORY \<mapsto> JArr [history_entry ?X t3, history_entry ?Y t2])"
  have n1: "JNull \<notin> set [history_entry ?X t1]"
    and n2: "JNull \<notin> set [history_entry ?Y t2, history_entry ?X t1]"
    by (simp_all add: history_entry_def)
  have 1: "addHistory ?X t1 st0 = Inr (True, ?s1)"
    using addHistory_step [OF assms(2) _ nx, of t1] by simp
  have 2: "addHistory ?Y t2 ?s1 = Inr (True, ?s2)"
    using addHistory_step [OF getHistory_upd n1 ny, of t2 st0] assms(1)
    by (simp add: field_history_entry_nomor fx fy)
  have 3: "addHistory ?X t3 ?s2 = Inr (True, ?s3)"
    using addHistory_step [OF getHistory_upd n2 nx, of t3 st0] assms(1)
    by (simp add: field_history_entry_nomor fx fy)
  have "addHistory_all [(?X, t1), (?Y, t2), (?X, t3)] st0 = Inr ?s3"
    by (simp add: 1 2 3)
  moreover have "getHistory ?s3 = JArr [history_entry ?X t3, history_entry ?Y t2]"
    by (rule getHistory_upd)
  ultimately show ?thesis by blast
qed

text \<open>
  The claim C2 as the specification states it, for any starting history, fails: a stored
  history that already holds chapter 2 twice (an import stores such a history as it
  comes) still holds it twice after chapter 1 is recorded, because the filter removes
  only the entries of the chapter being recorded.
\<close>

theorem addHistory_any_start_counterexample:
  "addHistory_all [(surat 1 ''al-Fatihah'' ''Al-Fatihah'', 30)]
     (Map.empty(HISTORY \<mapsto> JArr [JObj [(''nomor'', JNum 2), (''timestamp'', JNum 20)],
                                     JObj [(''nomor'', JNum 2), (''timestamp'', JNum 10)]]))
   = Inr (Map.empty(HISTORY \<mapsto> JArr
            [JObj [(''nomor'', JNum 1), (''nama'', JStr ''al-Fatihah''),
                   (''namaLatin'', JStr ''Al-Fatihah''), (''timestamp'', JNum 30)],
             JObj [(''nomor'', JNum 2), (''timestamp'', JNum 20)],
             JObj [(''nomor'', JNum 2), (''timestamp'', JNum 10)]]))
   \<and> \<not> one_per_chapter
         [JObj [(''nomor'', JNum 1), (''nama'', JStr ''al-Fatihah''),
                (''namaLatin'', JStr ''Al-Fatihah''), (''timestamp'', JNum 30)],
          JObj [(''nomor'', JNum 2), (''timestamp'', JNum 20)],
          JObj [(''nomor'', JNum 2), (''timestamp'', JNum 10)]]"
  by (simp add: addHistory_def getHistory_def getItem_def or_else_def setItem_def surat_def
        history_entry_def one_per_chapter_def nomor_of_def HISTORY_def Let_def)

text \<open>
  C2, amended. Take a stored history that is an array without \<^verbatim>\<open>null\<close> elements, has at
  most one entry per chapter id, at most 50 entries, and is ordered most recent first;
  the empty history of a fresh store is one. Then every run of \<^verbatim>\<open>addHistory\<close> calls
  with numeric chapter ids and a clock that does not go backwards returns, and the
  stored history again has at most one entry per chapter id, at most 50 entries, is
  ordered most recent first, and has the chapter recorded last at its front. Recording
  chapter \<open>x\<close>, then \<open>y\<close>, then \<open>x\<close> again on an empty history yields the 2-entry history
  with \<open>x\<close> at the front. From an arbitrary starting history one successful call
  already brings the length down to at most 50.
\<close>

theorem addHistory_keeps_history_invariant:
  assumes "getHistory st = JArr xs"
    and "JNull \<notin> set xs" "one_per_chapter xs" "recent_first xs" "length xs \<le> 50"
    and "list_all chapter_call calls" "sorted (map snd calls)"
    and "\<forall>t \<in> set (map snd calls). list_all (visited_by t) xs"
  shows "(\<exists>st' ys. addHistory_all calls st = Inr st' \<and> getHistory st' = JArr ys
            \<and> JNull \<notin> set ys \<and> one_per_chapter ys \<and> recent_first ys \<and> length ys \<le> 50
            \<and> (calls \<noteq> [] \<longrightarrow> hd ys = history_entry (fst (last calls)) (snd (last calls))))
       \<and> (x \<noteq> y \<and> getHistory st0 = JArr [] \<longrightarrow>
            (\<exists>st'. addHistory_all [(surat x nx lx, t1), (surat y ny ly, t2), (surat x nx lx, t3)] st0
                      = Inr st'
                \<and> getHistory st' = JArr [history_entry (surat x nx lx) t3,
                                          history_entry (surat y ny ly) t2]))
       \<and> (addHistory d now st1 = Inr (ok, st2) \<longrightarrow>
            (\<exists>zs. getHistory st2 = JArr zs \<and> length zs \<le> 50))"
  using addHistory_all_ok [OF assms] addHistory_x_y_x [of x y st0 nx lx t1 ny ly t2 t3]
    addHistory_cap [of d now st1 ok st2]
  by blast

theorem addHistory_keeps_history_invariant_witness:
  "\<exists>st'. addHistory_all [(surat 1 ''al-Fatihah'' ''Al-Fatihah'', 10),
                           (surat 2 ''al-Baqarah'' ''Al-Baqarah'', 20),
                           (surat 1 ''al-Fatihah'' ''Al-Fatihah'', 30)]
            (initializeStorage Map.empty) = Inr st'
       \<and> getHistory st' = JArr [history_entry (surat 1 ''al-Fatihah'' ''Al-Fatihah'') 30,
                                 history_entry (surat 2 ''al-Baqarah'' ''Al-Baqarah'') 20]"
proof -
  have h: "getHistory (initializeStorage Map.empty) = JArr []"
    by (simp add: initializeStorage_def getHistory_def getItem_def or_else_def setItem_def
          BOOKMARKS_def HISTORY_def THEME_def SETTINGS_def)
  have "JNull \<notin> set []" "one_per_chapter []" "recent_first []" "length ([] :: json list) \<le> 50"
    "list_all chapter_call [(surat 1 ''al-Fatihah'' ''Al-Fatihah'', 10 :: int),
                           (surat 2 ''al-Baqarah'' ''Al-Baqarah'', 20),
                           (surat 1 ''al-Fatihah'' ''Al-Fatihah'', 30)]"
    "sorted (map snd [(surat 1 ''al-Fatihah'' ''Al-Fatihah'', 10 :: int),
                           (surat 2 ''al-Baqarah'' ''Al-Baqarah'', 20),
                           (surat 1 ''al-Fatihah'' ''Al-Fatihah'', 30)])"
    "\<forall>t \<in> set (map snd [(surat 1 ''al-Fatihah'' ''Al-Fatihah'', 10 :: int),
                           (surat 2 ''al-Baqarah'' ''Al-Baqarah'', 20),
                           (surat 1 ''al-Fatihah'' ''Al-Fatihah'', 30)]). list_all (visited_by t) []"
    by (simp_all add: one_per_chapter_def recent_first_def chapter_call_def surat_def)
  from addHistory_keeps_history_invariant [OF h this,
         of 1 2 "initializeStorage Map.empty" "''al-Fatihah''" "''Al-Fatihah''" 10
            "''al-Baqarah''" "''Al-Baqarah''" 20 30] h
  show ?thesis by simp
qed

section \<open>Expired sessions\<close>

text \<open>
  C3. When the stored session has an \<^verbatim>\<open>expiresAt\<close> that lies before the current clock,
  \<^verbatim>\<open>getCurrentUser\<close> returns \<^verbatim>\<open>null\<close> and removes both the session record and the
  current-user record.
\<close>

theorem getCurrentUser_expired:
  assumes "SESSION st = Some s" "expiresAt s < now"
  shows "getCurrentUser now st = (None, st\<lparr>CURRENT_USER := None, SESSION := None\<rparr>)"
  using assms by (simp add: getCurrentUser_def isSessionValid_def logout_def)

theorem getCurrentUser_expired_witness:
  "getCurrentUser 86401001 amina_session =
     (None, \<lparr>USERS = Some [], CURRENT_USER = None, SESSION = None\<rparr>)"
  using getCurrentUser_expired
          [of amina_session "\<lparr>userId = ''user_a_b'', session_createdAt = 1000,
                             expiresAt = 86401000, isValid = True\<rparr>" 86401001]
  by (simp add: amina_session_def)

section \<open>Registration followed by login\<close>

lemma findIndex_Some:
  "findIndex p xs = Some i \<Longrightarrow> i < length xs \<and> p (xs ! i)"
proof (induction xs arbitrary: i)
  case Nil
  then show ?case by simp
next
  case (Cons x xs)
  show ?case
  proof (cases "p x")
    case True
    with Cons.prems show ?thesis by simp
  next
    case False
    with Cons.prems obtain j where j: "findIndex p xs = Some j" "i = Suc j"
      by auto
    with Cons.IH [OF j(1)] show ?thesis by simp
  qed
qed

lemma findIndex_update:
  "findIndex p xs = Some i \<Longrightarrow> p u \<Longrightarrow> findIndex p (xs[i := u]) = Some i"
proof (induction xs arbitrary: i)
  case Nil
  then show ?case by simp
next
  case (Cons x xs)
  show ?case
  proof (cases "p x")
    case True
    with Cons.prems show ?thesis by simp
  next
    case False
    with Cons.prems obtain j where j: "findIndex p xs = Some j" "i = Suc j"
      by auto
    from Cons.IH [OF j(1) Cons.prems(2)] False j(2) show ?thesis by simp
  qed
qed

lemma findIndex_append_last:
  "\<forall>x \<in> set xs. \<not> p x \<Longrightarrow> p y \<Longrightarrow> findIndex p (xs @ [y]) = Some (length xs)"
  by (induction xs) auto

text \<open>
  For a user name without surrounding white space the round trip holds: the account
  that \<^verbatim>\<open>register\<close> appended is the first one \<^verbatim>\<open>login\<close> finds, it is active, and the
  checksum of the same password matches.
\<close>

lemma register_then_login_trimmed:
  assumes "register uname pword now random st = Inr (su, st1)" "trim uname = uname"
  shows "\<exists>su2 st2. login uname pword later st1 = Inr (su2, st2)
           \<and> session_user_id su2 = session_user_id su"
proof -
  let ?p = "\<lambda>u. toLowerCase (username u) = toLowerCase uname"
  let ?new = "\<lparr>user_id = generateUserId now random, username = trim uname,
               password = hashPassword pword, createdAt = now, lastLogin = None,
               isActive = True,
               profile = \<lparr>displayName = trim uname, preferredQari = [],
                           fontSize = ''medium'', theme = ''light''\<rparr>\<rparr>"
  let ?users = "stored_users st"
  from assms(1) have ne: "uname \<noteq> []" "pword \<noteq> []"
    by (auto simp: register_def split: if_splits)
  from assms(1) have none: "find ?p ?users = None"
    by (auto simp: register_def Let_def split: if_splits option.splits)
  then have fresh: "\<forall>u \<in> set ?users. \<not> ?p u"
    by (simp add: find_None_iff)
  from assms(1) none have r: "(su, st1) = createUserSession ?new now (st\<lparr>USERS := Some (?users @ [?new])\<rparr>)"
    by (auto simp: register_def Let_def split: if_splits)
  then have su: "session_user_id su = generateUserId now random"
    and users1: "stored_users st1 = ?users @ [?new]"
    by (simp_all add: createUserSession_def Let_def stored_users_def)
  have "?p ?new" using assms(2) by simp
  with fresh have idx: "findIndex ?p (?users @ [?new]) = Some (length ?users)"
    by (rule findIndex_append_last)
  have nth: "(?users @ [?new]) ! length ?users = ?new" by simp
  show ?thesis
    using ne by (simp add: login_def users1 idx nth verifyPassword_def Let_def
          createUserSession_def su)
qed

text \<open>
  C4. \<^verbatim>\<open>register\<close> accepts the user name \<^verbatim>\<open>"bob "\<close> (four characters, not taken) with the
  password \<^verbatim>\<open>"secret1"\<close> and stores the account under the trimmed name \<^verbatim>\<open>"bob"\<close>;
  \<^verbatim>\<open>login\<close> with the same two strings compares the untrimmed name, finds no account and
  fails with \<^verbatim>\<open>Username tidak ditemukan\<close>.
\<close>

theorem register_then_login_padded_username:
  "(case register ''bob '' ''secret1'' 1000 ''k3j9x0a1b'' no_accounts of
      Inl e \<Rightarrow> False
    | Inr (sessionUser, st) \<Rightarrow>
        session_username sessionUser = ''bob''
        \<and> map username (stored_users st) = [''bob'']
        \<and> login ''bob '' ''secret1'' 2000 st = Inl (Error ''Username tidak ditemukan''))"
  by (simp add: register_def login_def no_accounts_def stored_users_def createUserSession_def
        toLowerCase_def lower_char_def trim_def is_space_def Let_def)

section \<open>Bookmarks\<close>

lemma field_set_field: "map_of (set_field kvs k v) k' = (if k' = k then Some v else map_of kvs k')"
  by (induction kvs k v rule: set_field.induct) auto

lemma some_match_no_null:
  "JNull \<notin> set xs \<Longrightarrow> some_match p xs = Inr (\<exists>x \<in> set xs. p x)"
  by (induction xs) auto

lemma getBookmarks_upd: "getBookmarks (st(BOOKMARKS \<mapsto> JObj kvs)) = JObj kvs"
  by (simp add: getBookmarks_def getItem_def or_else_def)

lemma field_Some_obj: "field j k = Some v \<Longrightarrow> \<exists>kvs. j = JObj kvs \<and> map_of kvs k = Some v"
  by (cases j) auto

lemma surat_bookmark_nomor: "nomor_of (surat_bookmark item now) = field item ''nomor''"
  by (simp add: nomor_of_def surat_bookmark_def map_of_object_of)

lemma ayat_bookmark_key:
  "ayat_key (ayat_bookmark item now) = (field item ''suratId'', field item ''nomorAyat'')"
  by (simp add: ayat_key_def ayat_bookmark_def map_of_object_of)

lemma same_surat_num:
  "field item ''nomor'' = Some (JNum n) \<Longrightarrow> same_surat item s = (nomor_of s = Some (JNum n))"
  by (simp add: same_surat_def nomor_of_def strict_eq_num)

lemma same_ayat_num:
  "field item ''suratId'' = Some (JNum c) \<Longrightarrow> field item ''nomorAyat'' = Some (JNum v) \<Longrightarrow>
   same_ayat item a = (ayat_key a = (Some (JNum c), Some (JNum v)))"
  by (simp add: same_ayat_def ayat_key_def strict_eq_num)

lemma count_some:
  assumes "\<exists>x \<in> set xs. P x"
  shows "length (filter P xs) = max 1 (length (filter P xs))"
proof -
  from assms have "filter P xs \<noteq> []" by (simp add: filter_empty_conv)
  then have "Suc 0 \<le> length (filter P xs)" by (cases "filter P xs") simp_all
  then show ?thesis by (simp add: max_def)
qed

lemma count_none: "\<not> (\<exists>x \<in> set xs. P x) \<Longrightarrow> length (filter P xs) = 0"
  by (simp add: filter_empty_conv)

lemma addBookmark_surat_step:
  assumes "getBookmarks st = JObj kvs" "map_of kvs ''surat'' = Some (JArr xs)"
    and "JNull \<notin> set xs" "field item ''nomor'' = Some (JNum n)"
  shows "addBookmark ''surat'' item now st =
           Inr (True, st(BOOKMARKS \<mapsto>
             (if \<exists>x \<in> set xs. nomor_of x = Some (JNum n) then JObj kvs
              else JObj (set_field kvs ''surat'' (JArr (surat_bookmark item now # xs))))))"
proof -
  from assms(4) have "item \<noteq> JNull" by auto
  then show ?thesis
    using assms(1,2)
    by (auto simp: addBookmark_def some_match_no_null [OF assms(3)]
                   same_surat_num [OF assms(4)] setItem_def Let_def)
qed

lemma addBookmark_ayat_step:
  assumes "getBookmarks st = JObj kvs" "map_of kvs ''ayat'' = Some (JArr ys)"
    and "JNull \<notin> set ys"
    and "field item ''suratId'' = Some (JNum c)" "field item ''nomorAyat'' = Some (JNum v)"
  shows "addBookmark ''ayat'' item now st =
           Inr (True, st(BOOKMARKS \<mapsto>
             (if \<exists>x \<in> set ys. ayat_key x = (Some (JNum c), Some (JNum v)) then JObj kvs
              else JObj (set_field kvs ''ayat'' (JArr (ayat_bookmark item now # ys))))))"
proof -
  from assms(4) have "item \<noteq> JNull" by auto
  then show ?thesis
    using assms(1,2)
    by (auto simp: addBookmark_def some_match_no_null [OF assms(3)]
                   same_ayat_num [OF assms(4,5)] setItem_def Let_def)
qed

lemma addBookmark_surat_twice:
  assumes "surat_list st = Some (JArr xs)" "JNull \<notin> set xs"
    and "field item ''nomor'' = Some (JNum n)"
  shows "\<exists>st1 xs1. addBookmark ''surat'' item t1 st = Inr (True, st1)
           \<and> addBookmark ''surat'' item t2 st1 = Inr (True, st1)
           \<and> surat_list st1 = Some (JArr xs1) \<and> JNull \<notin> set xs1
           \<and> length (filter (\<lambda>s. nomor_of s = Some (JNum n)) xs1)
               = max 1 (length (filter (\<lambda>s. nomor_of s = Some (JNum n)) xs))"
proof -
  from assms(1) obtain kvs where kvs: "getBookmarks st = JObj kvs"
    "map_of kvs ''surat'' = Some (JArr xs)"
    unfolding surat_list_def using field_Some_obj by blast
  let ?P = "\<lambda>s. nomor_of s = Some (JNum n)"
  let ?new = "surat_bookmark item t1"
  have new: "?P ?new" by (simp add: surat_bookmark_nomor assms(3))
  have new_nn: "?new \<noteq> JNull" by (simp add: surat_bookmark_def)
  show ?thesis
  proof (cases "\<exists>x \<in> set xs. ?P x")
    case True
    let ?st1 = "st(BOOKMARKS \<mapsto> JObj kvs)"
    have a: "addBookmark ''surat'' item t1 st = Inr (True, ?st1)"
      using addBookmark_surat_step [OF kvs assms(2,3)] True by simp
    have g: "getBookmarks ?st1 = JObj kvs" by (rule getBookmarks_upd)
    have b: "addBookmark ''surat'' item t2 ?st1 = Inr (True, ?st1)"
      using addBookmark_surat_step [OF g kvs(2) assms(2,3)] True by simp
    have c: "surat_list ?st1 = Some (JArr xs)"
      by (simp add: surat_list_def g kvs(2))
    have d: "length (filter ?P xs) = max 1 (length (filter ?P xs))"
      using True by (rule count_some)
    from a b c d assms(2) show ?thesis by blast
  next
    case False
    let ?kvs1 = "set_field kvs ''surat'' (JArr (?new # xs))"
    let ?st1 = "st(BOOKMARKS \<mapsto> JObj ?kvs1)"
    have a: "addBookmark ''surat'' item t1 st = Inr (True, ?st1)"
      using addBookmark_surat_step [OF kvs assms(2,3)] False by simp
    have g: "getBookmarks ?st1 = JObj ?kvs1" by (rule getBookmarks_upd)
    have f: "map_of ?kvs1 ''surat'' = Some (JArr (?new # xs))"
      by (simp add: field_set_field)
    have nn1: "JNull \<notin> set (?new # xs)" using assms(2) new_nn by auto
    have ex: "\<exists>x \<in> set (?new # xs). ?P x" using new by simp
    have b: "addBookmark ''surat'' item t2 ?st1 = Inr (True, ?st1)"
      using addBookmark_surat_step [OF g f nn1 assms(3), of t2] ex by (simp del: set_simps)
    have c: "surat_list ?st1 = Some (JArr (?new # xs))"
      by (simp add: surat_list_def g f)
    have "length (filter ?P xs) = 0" using False by (rule count_none)
    then have d: "length (filter ?P (?new # xs)) = max 1 (length (filter ?P xs))"
      using new by simp
    from a b c d nn1 show ?thesis by blast
  qed
qed

lemma addBookmark_ayat_twice:
  assumes "ayat_list st = Some (JArr ys)" "JNull \<notin> set ys"
    and "field item ''suratId'' = Some (JNum c)" "field item ''nomorAyat'' = Some (JNum v)"
  shows "\<exists>st1 ys1. addBookmark ''ayat'' item t1 st = Inr (True, st1)
           \<and> addBookmark ''ayat'' item t2 st1 = Inr (True, st1)
           \<and> ayat_list st1 = Some (JArr ys1) \<and> JNull \<notin> set ys1
           \<and> length (filter (\<lambda>a. ayat_key a = (Some (JNum c), Some (JNum v))) ys1)
               = max 1 (length (filter (\<lambda>a. ayat_key a = (Some (JNum c), Some (JNum v))) ys))"
proof -
  from assms(1) obtain kvs where kvs: "getBookmarks st = JObj kvs"
    "map_of kvs ''ayat'' = Some (JArr ys)"
    unfolding ayat_list_def using field_Some_obj by blast
  let ?P = "\<lambda>a. ayat_key a = (Some (JNum c), Some (JNum v))"
  let ?new = "ayat_bookmark item t1"
  have new: "?P ?new" by (simp add: ayat_bookmark_key assms(3,4))
  have new_nn: "?new \<noteq> JNull" by (simp add: ayat_bookmark_def)
  show ?thesis
  proof (cases "\<exists>x \<in> set ys. ?P x")
    case True
    let ?st1 = "st(BOOKMARKS \<mapsto> JObj kvs)"
    have a: "addBookmark ''ayat'' item t1 st = Inr (True, ?st1)"
      using addBookmark_ayat_step [OF kvs assms(2,3,4)] True by simp
    have g: "getBookmarks ?st1 = JObj kvs" by (rule getBookmarks_upd)
    have b: "addBookmark ''ayat'' item t2 ?st1 = Inr (True, ?st1)"
      using addBookmark_ayat_step [OF g kvs(2) assms(2,3,4)] True by simp
    have c: "ayat_list ?st1 = Some (JArr ys)"
      by (simp add: ayat_list_def g kvs(2))
    have d: "length (filter ?P ys) = max 1 (length (filter ?P ys))"
      using True by (rule count_some)
    from a b c d assms(2) show ?thesis by blast
  next
    case False
    let ?kvs1 = "set_field kvs ''ayat'' (JArr (?new # ys))"
    let ?st1 = "st(BOOKMARKS \<mapsto> JObj ?kvs1)"
    have a: "addBookmark ''ayat'' item t1 st = Inr (True, ?st1)"
      using addBookmark_ayat_step [OF kvs assms(2,3,4)] False by simp
    have g: "getBookmarks ?st1 = JObj ?kvs1" by (rule getBookmarks_upd)
    have f: "map_of ?kvs1 ''ayat'' = Some (JArr (?new # ys))"
      by (simp add: field_set_field)
    have nn1: "JNull \<notin> set (?new # ys)" using assms(2) new_nn by auto
    have ex: "\<exists>x \<in> set (?new # ys). ?P x" using new by simp
    have b: "addBookmark ''ayat'' item t2 ?st1 = Inr (True, ?st1)"
      using addBookmark_ayat_step [OF g f nn1 assms(3,4), of t2] ex by (simp del: set_simps)
    have c: "ayat_list ?st1 = Some (JArr (?new # ys))"
      by (simp add: ayat_list_def g f)
    have "length (filter ?P ys) = 0" using False by (rule count_none)
    then have d: "length (filter ?P (?new # ys)) = max 1 (length (filter ?P ys))"
      using new by simp
    from a b c d nn1 show ?thesis by blast
  qed
qed

text \<open>
  The claim C5 as the specification states it, for every chapter and whatever the store
  holds, fails: on the store that the import of \<open>unchecked_payload\<close> leaves, which holds
  chapter 1 twice among the chapter bookmarks, bookmarking chapter 1 twice returns both
  times and changes nothing, because \<^verbatim>\<open>some\<close> finds a match and no entry is ever
  removed; two chapter bookmarks with ordinal 1 are left.
\<close>

theorem addBookmark_twice_duplicates_counterexample:
  "addBookmark ''surat'' (surat 1 ''al-Fatihah'' ''Al-Fatihah'') 10
     (snd (importData (Inr unchecked_payload) (initializeStorage Map.empty)))
     = Inr (True, snd (importData (Inr unchecked_payload) (initializeStorage Map.empty)))
   \<and> addBookmark ''surat'' (surat 1 ''al-Fatihah'' ''Al-Fatihah'') 20
     (snd (importData (Inr unchecked_payload) (initializeStorage Map.empty)))
     = Inr (True, snd (importData (Inr unchecked_payload) (initializeStorage Map.empty)))
   \<and> surat_list (snd (importData (Inr unchecked_payload) (initializeStorage Map.empty)))
     = Some (JArr [JObj [(''nomor'', JNum 1)], JObj [(''nomor'', JNum 1)]])
   \<and> map nomor_of [JObj [(''nomor'', JNum 1)], JObj [(''nomor'', JNum 1)]]
     = [Some (JNum 1), Some (JNum 1)]"
proof -
  let ?S = "snd (importData (Inr unchecked_payload) (initializeStorage Map.empty))"
  let ?b = "JObj
           [(''surat'', JArr [JObj [(''nomor'', JNum 1)], JObj [(''nomor'', JNum 1)]]),
            (''ayat'', JArr [JObj [(''suratId'', JNum 1), (''nomorAyat'', JNum 1)],
                             JObj [(''suratId'', JNum 1), (''nomorAyat'', JNum 1)]])]"
  have stored: "?S BOOKMARKS = Some ?b"
    by (simp add: importData_def importData_try_def unchecked_payload_def get_prop_def
          setItem_def BOOKMARKS_def HISTORY_def)
  then have same: "?S(BOOKMARKS \<mapsto> ?b) = ?S"
    by (rule map_upd_triv)
  have g: "getBookmarks ?S = ?b"
    using stored by (simp add: getBookmarks_def getItem_def or_else_def)
  have add: "addBookmark ''surat'' (surat 1 ''al-Fatihah'' ''Al-Fatihah'') now ?S
               = Inr (True, ?S(BOOKMARKS \<mapsto> ?b))" for now
    by (simp add: addBookmark_def g same_surat_def surat_def setItem_def)
  have l: "surat_list ?S = Some (JArr [JObj [(''nomor'', JNum 1)], JObj [(''nomor'', JNum 1)]])"
    by (simp add: surat_list_def g)
  have n: "map nomor_of [JObj [(''nomor'', JNum 1)], JObj [(''nomor'', JNum 1)]]
     = [Some (JNum 1), Some (JNum 1)]"
    by (simp add: nomor_of_def)
  from add [of 10] add [of 20] same l n show ?thesis by simp
qed

text \<open>
  C5, amended. On a store whose bookmark lists are arrays of entries, bookmarking a
  chapter with ordinal \<open>n\<close> twice succeeds both times and the second call changes
  nothing; when the store held at most one chapter bookmark with ordinal \<open>n\<close> before,
  exactly one is left. Bookmarking the verse with chapter id \<open>c\<close> and verse ordinal
  \<open>v\<close> twice likewise leaves exactly one verse bookmark with that pair when the store
  held at most one before. In general the number of bookmarks with the key is the number
  before, or one if there was none.
\<close>

theorem addBookmark_twice:
  assumes "surat_list st = Some (JArr xs)" "JNull \<notin> set xs"
    and "field item ''nomor'' = Some (JNum n)"
    and "ayat_list st = Some (JArr ys)" "JNull \<notin> set ys"
    and "field verse ''suratId'' = Some (JNum c)" "field verse ''nomorAyat'' = Some (JNum v)"
  shows "(\<exists>st1 xs1. addBookmark ''surat'' item t1 st = Inr (True, st1)
            \<and> addBookmark ''surat'' item t2 st1 = Inr (True, st1)
            \<and> surat_list st1 = Some (JArr xs1)
            \<and> length (filter (\<lambda>s. nomor_of s = Some (JNum n)) xs1)
                = max 1 (length (filter (\<lambda>s. nomor_of s = Some (JNum n)) xs))
            \<and> (length (filter (\<lambda>s. nomor_of s = Some (JNum n)) xs) \<le> 1 \<longrightarrow>
                length (filter (\<lambda>s. nomor_of s = Some (JNum n)) xs1) = 1))
       \<and> (\<exists>st1 ys1. addBookmark ''ayat'' verse t1 st = Inr (True, st1)
            \<and> addBookmark ''ayat'' verse t2 st1 = Inr (True, st1)
            \<and> ayat_list st1 = Some (JArr ys1)
            \<and> length (filter (\<lambda>a. ayat_key a = (Some (JNum c), Some (JNum v))) ys1)
                = max 1 (length (filter (\<lambda>a. ayat_key a = (Some (JNum c), Some (JNum v))) ys))
            \<and> (length (filter (\<lambda>a. ayat_key a = (Some (JNum c), Some (JNum v))) ys) \<le> 1 \<longrightarrow>
                length (filter (\<lambda>a. ayat_key a = (Some (JNum c), Some (JNum v))) ys1) = 1))"
proof -
  from addBookmark_surat_twice [OF assms(1-3), of t1 t2]
  obtain st1 xs1 where s: "addBookmark ''surat'' item t1 st = Inr (True, st1)"
    "addBookmark ''surat'' item t2 st1 = Inr (True, st1)"
    "surat_list st1 = Some (JArr xs1)"
    "length (filter (\<lambda>s. nomor_of s = Some (JNum n)) xs1)
       = max 1 (length (filter (\<lambda>s. nomor_of s = Some (JNum n)) xs))"
    by blast
  from s(4) have s5: "length (filter (\<lambda>s. nomor_of s = Some (JNum n)) xs) \<le> 1 \<longrightarrow>
      length (filter (\<lambda>s. nomor_of s = Some (JNum n)) xs1) = 1"
    by simp
  from addBookmark_ayat_twice [OF assms(4-7), of t1 t2]
  obtain st2 ys1 where a: "addBookmark ''ayat'' verse t1 st = Inr (True, st2)"
    "addBookmark ''ayat'' verse t2 st2 = Inr (True, st2)"
    "ayat_list st2 = Some (JArr ys1)"
    "length (filter (\<lambda>a. ayat_key a = (Some (JNum c), Some (JNum v))) ys1)
       = max 1 (length (filter (\<lambda>a. ayat_key a = (Some (JNum c), Some (JNum v))) ys))"
    by blast
  from a(4) have a5: "length (filter (\<lambda>a. ayat_key a = (Some (JNum c), Some (JNum v))) ys) \<le> 1 \<longrightarrow>
      length (filter (\<lambda>a. ayat_key a = (Some (JNum c), Some (JNum v))) ys1) = 1"
    by simp
  from s(1-4) s5 a(1-4) a5 show ?thesis by blast
qed

theorem addBookmark_twice_witness:
  "(\<exists>st1 xs1. addBookmark ''surat'' (surat 1 ''al-Fatihah'' ''Al-Fatihah'') 10
                 (initializeStorage Map.empty) = Inr (True, st1)
            \<and> addBookmark ''surat'' (surat 1 ''al-Fatihah'' ''Al-Fatihah'') 20 st1 = Inr (True, st1)
            \<and> surat_list st1 = Some (JArr xs1)
            \<and> length (filter (\<lambda>s. nomor_of s = Some (JNum 1)) xs1) = 1)
   \<and> (\<exists>st1 ys1. addBookmark ''ayat'' first_verse 10 (initializeStorage Map.empty) = Inr (True, st1)
            \<and> addBookmark ''ayat'' first_verse 20 st1 = Inr (True, st1)
            \<and> ayat_list st1 = Some (JArr ys1)
            \<and> length (filter (\<lambda>a. ayat_key a = (Some (JNum 1), Some (JNum 1))) ys1) = 1)"
proof -
  have b: "getBookmarks (initializeStorage Map.empty) = default_bookmarks"
    by (simp add: initializeStorage_def getBookmarks_def getItem_def or_else_def setItem_def
          default_bookmarks_def BOOKMARKS_def HISTORY_def THEME_def SETTINGS_def)
  have s: "surat_list (initializeStorage Map.empty) = Some (JArr [])"
    and a: "ayat_list (initializeStorage Map.empty) = Some (JArr [])"
    by (simp_all add: surat_list_def ayat_list_def b default_bookmarks_def)
  have d: "field (surat 1 ''al-Fatihah'' ''Al-Fatihah'') ''nomor'' = Some (JNum 1)"
    "field first_verse ''suratId'' = Some (JNum 1)" "field first_verse ''nomorAyat'' = Some (JNum 1)"
    by (simp_all add: surat_def first_verse_def)
  have e: "JNull \<notin> set []" by simp
  from addBookmark_twice [OF s e d(1) a e d(2) d(3), of 10 20]
  show ?thesis by simp
qed

section \<open>Settings\<close>

text \<open>
  The claim C6 as the specification states it fails: after an import whose settings
  record holds the font size only, the getter returns that one-field record; nothing is
  filled in from the defaults.
\<close>

theorem getSettings_partial_counterexample:
  "fst (importData (Inr partial_settings_payload) (initializeStorage Map.empty)) = True
   \<and> getSettings (snd (importData (Inr partial_settings_payload) (initializeStorage Map.empty)))
     = JObj [(''fontSize'', JStr ''large'')]
   \<and> \<not> fully_populated
         (getSettings (snd (importData (Inr partial_settings_payload) (initializeStorage Map.empty))))"
  by (simp add: importData_def importData_try_def partial_settings_payload_def get_prop_def
        setItem_def getSettings_def getItem_def or_else_def fully_populated_def setting_keys_def)

text \<open>
  C6, amended. The settings getter returns the stored record as it is whenever a truthy
  value is stored, and the six-field record of defaults otherwise. Its result therefore
  has all six fields exactly when nothing is stored or the stored record has all six
  itself; a missing key of a stored record is not filled from the defaults.
\<close>

theorem getSettings_stored_or_default:
  "getSettings st = (if truthy (getItem st SETTINGS) then getItem st SETTINGS else default_settings)
   \<and> fully_populated default_settings
   \<and> fully_populated (getSettings st)
       = (\<not> truthy (getItem st SETTINGS) \<or> fully_populated (getItem st SETTINGS))"
  by (simp add: getSettings_def or_else_def fully_populated_def setting_keys_def
        default_settings_def)

theorem getSettings_stored_or_default_witness:
  "getSettings Map.empty = default_settings
   \<and> fully_populated (getSettings (initializeStorage Map.empty))
   \<and> \<not> fully_populated (getSettings (Map.empty(SETTINGS \<mapsto> JObj [])))"
  using getSettings_stored_or_default [of Map.empty]
        getSettings_stored_or_default [of "initializeStorage Map.empty"]
        getSettings_stored_or_default [of "Map.empty(SETTINGS \<mapsto> JObj [])"]
  by (simp add: getItem_def initializeStorage_def setItem_def default_settings_def
        fully_populated_def setting_keys_def
        BOOKMARKS_def HISTORY_def THEME_def SETTINGS_def)

section \<open>Verse audio\<close>

text \<open>
  What \<^verbatim>\<open>getAyatAudioUrl\<close> does once the chapter detail is fetched: the error
  \<^verbatim>\<open>Audio tidak tersedia untuk ayat ini\<close> when the verse or its audio mapping is absent,
  otherwise the entry of the mapping, read under the reciter id or, for a key outside
  \<^verbatim>\<open>qariMapping\<close>, under the name \<^verbatim>\<open>undefined\<close>.
\<close>

lemma getAyatAudioUrl_cases:
  assumes "getSuratDetail fetchAPI suratId = Inr suratDetail"
  shows "getAyatAudioUrl fetchAPI suratId ayatNumber qariKey =
     (case find (\<lambda>a. nomorAyat a = ayatNumber) (ayat suratDetail) of
        None \<Rightarrow> Inl (Error ''Gagal mendapatkan URL audio: Audio tidak tersedia untuk ayat ini'')
      | Some a \<Rightarrow>
          (case audio a of
             None \<Rightarrow> Inl (Error ''Gagal mendapatkan URL audio: Audio tidak tersedia untuk ayat ini'')
           | Some mapping \<Rightarrow>
               (case qariMapping qariKey of
                  None \<Rightarrow> Inr (map_of mapping ''undefined'')
                | Some qariId \<Rightarrow> Inr (map_of mapping qariId))))"
  using assms by (simp add: getAyatAudioUrl_def split: option.splits)

text \<open>
  C7. For the reciter key \<^verbatim>\<open>unknown_qari\<close>, which \<^verbatim>\<open>qariMapping\<close> does not hold, and verse 1
  of chapter 1 with its audio mapping present, \<^verbatim>\<open>getAyatAudioUrl\<close> does not fail: it
  returns \<^verbatim>\<open>undefined\<close>. The sibling \<^verbatim>\<open>getAudioUrl\<close> rejects the same key with
  \<^verbatim>\<open>Qari tidak valid\<close>.
\<close>

theorem getAyatAudioUrl_unknown_qari:
  "qariMapping ''unknown_qari'' = None
   \<and> getAyatAudioUrl (\<lambda>endpoint. Inr al_fatihah) 1 1 ''unknown_qari'' = Inr None
   \<and> getAudioUrl 1 1 ''unknown_qari'' = Inl (Error ''Qari tidak valid'')"
  by (simp add: getAyatAudioUrl_def getSuratDetail_def getAudioUrl_def qariMapping_def
        al_fatihah_def)

section \<open>Memoization\<close>

text \<open>
  C8. When the cache holds an entry for the key that is younger than one hour
  (3600000 ms), \<^verbatim>\<open>getCachedData\<close> returns the stored value and leaves the cache and the
  world of the producer untouched, so the producer did not run. When there is no entry,
  or the entry is one hour old or older, it runs the producer, stores the produced value
  with the clock read after the fetch, and returns that value.
\<close>

theorem getCachedData_hit_or_fetch:
  "(cache key = Some c \<and> now - timestamp c < 3600000 \<longrightarrow>
      getCachedData key fetchFunction now later (cache, world) = (Inr (data c), cache, world))
   \<and> ((cache key = None \<or> (cache key = Some c \<and> 3600000 \<le> now - timestamp c))
        \<and> fetchFunction world = (Inr d, world1) \<longrightarrow>
      getCachedData key fetchFunction now later (cache, world)
        = (Inr d, cache(key \<mapsto> \<lparr>data = d, timestamp = later\<rparr>), world1))"
  by (auto simp: getCachedData_def)

theorem getCachedData_hit_or_fetch_witness:
  "getCachedData ''surat-1'' (\<lambda>n. (Inr ''fresh'', Suc n)) 3599999 3600005
     (Map.empty(''surat-1'' \<mapsto> \<lparr>data = ''stored'', timestamp = 0\<rparr>), 0 :: nat)
     = (Inr ''stored'', Map.empty(''surat-1'' \<mapsto> \<lparr>data = ''stored'', timestamp = 0\<rparr>), 0)
   \<and> getCachedData ''surat-1'' (\<lambda>n. (Inr ''fresh'', Suc n)) 3600000 3600005
     (Map.empty(''surat-1'' \<mapsto> \<lparr>data = ''stored'', timestamp = 0\<rparr>), 0 :: nat)
     = (Inr ''fresh'', Map.empty(''surat-1'' \<mapsto> \<lparr>data = ''fresh'', timestamp = 3600005\<rparr>), 1)"
  using getCachedData_hit_or_fetch
          [of "Map.empty(''surat-1'' \<mapsto> \<lparr>data = ''stored'', timestamp = 0\<rparr>)" "''surat-1''"
              "\<lparr>data = ''stored'', timestamp = 0\<rparr>" 3599999 "\<lambda>n. (Inr ''fresh'', Suc n)"
              3600005 "0 :: nat" "''fresh''" 1]
        getCachedData_hit_or_fetch
          [of "Map.empty(''surat-1'' \<mapsto> \<lparr>data = ''stored'', timestamp = 0\<rparr>)" "''surat-1''"
              "\<lparr>data = ''stored'', timestamp = 0\<rparr>" 3600000 "\<lambda>n. (Inr ''fresh'', Suc n)"
              3600005 "0 :: nat" "''fresh''" 1]
  by simp

section \<open>Password change\<close>

lemma getCurrentUser_Some:
  assumes "getCurrentUser now st = (Some cu, st1)"
  shows "st1 = st \<and> CURRENT_USER st = Some cu \<and> isSessionValid now (SESSION st)"
  using assms by (auto simp: getCurrentUser_def Let_def split: if_splits)

text \<open>
  C9. A successful \<^verbatim>\<open>changePassword\<close> leaves the session record and the current-user
  record as they were; in the list of accounts it replaces the checksum of one account,
  whose id is the id of the current user, and nothing else. The session is still valid
  and \<^verbatim>\<open>getCurrentUser\<close> returns the same user afterwards.
\<close>

theorem changePassword_keeps_session:
  assumes "changePassword currentPassword newPassword now st = (Inr True, st')"
  shows "SESSION st' = SESSION st \<and> CURRENT_USER st' = CURRENT_USER st
         \<and> (\<exists>i cu. i < length (stored_users st) \<and> CURRENT_USER st = Some cu
               \<and> user_id (stored_users st ! i) = session_user_id cu
               \<and> stored_users st' =
                   (stored_users st)[i := (stored_users st ! i)\<lparr>password := hashPassword newPassword\<rparr>])
         \<and> isSessionValid now (SESSION st')
         \<and> getCurrentUser now st' = (CURRENT_USER st, st')"
proof -
  obtain r st1 where g: "getCurrentUser now st = (r, st1)"
    by (cases "getCurrentUser now st")
  with assms obtain cu where r: "r = Some cu"
    by (cases r) (auto simp: changePassword_def)
  from g r have cur: "st1 = st" "CURRENT_USER st = Some cu" "isSessionValid now (SESSION st)"
    using getCurrentUser_Some by blast+
  let ?p = "\<lambda>u. user_id u = session_user_id cu"
  let ?users = "stored_users st"
  from assms g r cur(1) obtain i where i: "findIndex ?p ?users = Some i"
    by (cases "findIndex ?p ?users") (auto simp: changePassword_def Let_def split: if_splits)
  let ?u = "(?users ! i)\<lparr>password := hashPassword newPassword\<rparr>"
  from findIndex_Some [OF i] have ii: "i < length ?users" "?p (?users ! i)" by simp_all
  then have pu: "?p ?u" by simp
  have again: "findIndex ?p (?users[i := ?u]) = Some i"
    using i pu by (rule findIndex_update)
  from assms g r cur(1) i again
  have st': "st' = st\<lparr>USERS := Some (?users[i := ?u])\<rparr>"
    by (auto simp: changePassword_def Let_def split: if_splits)
  have 1: "SESSION st' = SESSION st" "CURRENT_USER st' = CURRENT_USER st"
    by (simp_all add: st')
  have 2: "stored_users st' = ?users[i := ?u]"
    by (simp add: st' stored_users_def)
  have 3: "isSessionValid now (SESSION st')"
    using cur(3) 1 by simp
  have 4: "getCurrentUser now st' = (CURRENT_USER st, st')"
    using 3 1 by (auto simp: getCurrentUser_def Let_def isSessionValid_def)
  from 1 2 3 4 ii cur(2) show ?thesis by blast
qed

theorem changePassword_keeps_session_witness:
  "changePassword ''secret1'' ''secret2'' 5000 logged_in
     = (Inr True, logged_in\<lparr>USERS := Some [(hd (stored_users logged_in))\<lparr>password := hashPassword ''secret2''\<rparr>]\<rparr>)
   \<and> SESSION (logged_in\<lparr>USERS := Some [(hd (stored_users logged_in))\<lparr>password := hashPassword ''secret2''\<rparr>]\<rparr>)
       = SESSION logged_in
   \<and> getCurrentUser 5000 (logged_in\<lparr>USERS := Some [(hd (stored_users logged_in))\<lparr>password := hashPassword ''secret2''\<rparr>]\<rparr>)
       = (CURRENT_USER logged_in,
          logged_in\<lparr>USERS := Some [(hd (stored_users logged_in))\<lparr>password := hashPassword ''secret2''\<rparr>]\<rparr>)"
proof -
  let ?st' = "logged_in\<lparr>USERS := Some [(hd (stored_users logged_in))\<lparr>password := hashPassword ''secret2''\<rparr>]\<rparr>"
  have run: "changePassword ''secret1'' ''secret2'' 5000 logged_in = (Inr True, ?st')"
    by (simp add: changePassword_def getCurrentUser_def isSessionValid_def amina_session_def
          logged_in_def stored_users_def verifyPassword_def Let_def)
  from changePassword_keeps_session [OF run] run show ?thesis
    by simp
qed

section \<open>Import against the incremental operations\<close>

lemma not_distinct_replicate: "Suc 0 < n \<Longrightarrow> \<not> distinct (replicate n x)"
  by (cases n) auto

lemma is_numE: "is_num v \<Longrightarrow> \<exists>n. v = Some (JNum n)"
  by (auto simp: is_num_def split: option.splits json.splits)

lemma BOOKMARKS_neq_HISTORY: "BOOKMARKS \<noteq> HISTORY"
  by (simp add: BOOKMARKS_def HISTORY_def)

lemma getHistory_upd_BOOKMARKS: "getHistory (st(BOOKMARKS \<mapsto> v)) = getHistory st"
  using BOOKMARKS_neq_HISTORY by (simp add: getHistory_def getItem_def)

lemma getBookmarks_upd_HISTORY: "getBookmarks (st(HISTORY \<mapsto> v)) = getBookmarks st"
  using BOOKMARKS_neq_HISTORY by (simp add: getBookmarks_def getItem_def)

lemma incremental_inv_init: "incremental_inv (initializeStorage Map.empty)"
  by (simp add: incremental_inv_def initializeStorage_def getItem_def setItem_def
        getHistory_def or_else_def surat_list_def ayat_list_def getBookmarks_def
        default_bookmarks_def one_per_chapter_def
        BOOKMARKS_def HISTORY_def THEME_def SETTINGS_def)

lemma incremental_inv_perform:
  assumes "incremental_inv st" "typed_call c"
  shows "incremental_inv (perform c st)"
proof -
  from assms(1) obtain hs ss vs where inv:
    "getHistory st = JArr hs" "length hs \<le> 50" "one_per_chapter hs"
    "surat_list st = Some (JArr ss)" "distinct (map nomor_of ss)"
    "ayat_list st = Some (JArr vs)" "distinct (map ayat_key vs)"
    "JNull \<notin> set hs" "JNull \<notin> set ss" "JNull \<notin> set vs"
    unfolding incremental_inv_def by blast
  from inv(4) obtain kvs where kvs: "getBookmarks st = JObj kvs"
    "map_of kvs ''surat'' = Some (JArr ss)"
    unfolding surat_list_def using field_Some_obj by blast
  from inv(6) kvs(1) have kva: "map_of kvs ''ayat'' = Some (JArr vs)"
    by (simp add: ayat_list_def)
  show ?thesis
  proof (cases c)
    case (AddHistory d now)
    with assms(2) obtain n where n: "field d ''nomor'' = Some (JNum n)"
      using is_numE by auto
    then have nn: "d \<noteq> JNull" by auto
    let ?hs = "take 50 (history_entry d now #
                 filter (\<lambda>h. \<not> strict_eq (field h ''nomor'') (field d ''nomor'')) hs)"
    have "addHistory d now st = Inr (True, st(HISTORY \<mapsto> JArr ?hs))"
      using inv(1,8) nn by (rule addHistory_step)
    then have p: "perform c st = st(HISTORY \<mapsto> JArr ?hs)"
      using AddHistory by simp
    have 1: "getHistory (st(HISTORY \<mapsto> JArr ?hs)) = JArr ?hs" by (rule getHistory_upd)
    have 2: "one_per_chapter ?hs" using inv(3) n by (rule one_per_chapter_step)
    have 3: "JNull \<notin> set ?hs" using inv(8) by (rule no_null_step)
    have 4: "length ?hs \<le> 50" by simp
    have 5: "surat_list (st(HISTORY \<mapsto> JArr ?hs)) = Some (JArr ss)"
      using inv(4) by (simp add: surat_list_def getBookmarks_upd_HISTORY)
    have 6: "ayat_list (st(HISTORY \<mapsto> JArr ?hs)) = Some (JArr vs)"
      using inv(6) by (simp add: ayat_list_def getBookmarks_upd_HISTORY)
    show ?thesis
      unfolding incremental_inv_def p
      using 1 2 3 4 5 6 inv(5,7,9,10) by blast
  next
    case (AddBookmark type d now)
    consider (surat) "type = ''surat''" | (ayat) "type = ''ayat''"
      | (other) "type \<noteq> ''surat''" "type \<noteq> ''ayat''" by blast
    then show ?thesis
    proof cases
      case surat
      with assms(2) AddBookmark obtain n where n: "field d ''nomor'' = Some (JNum n)"
        using is_numE by auto
      let ?new = "surat_bookmark d now"
      let ?v = "if \<exists>x \<in> set ss. nomor_of x = Some (JNum n) then JObj kvs
                else JObj (set_field kvs ''surat'' (JArr (?new # ss)))"
      have "addBookmark ''surat'' d now st = Inr (True, st(BOOKMARKS \<mapsto> ?v))"
        using kvs inv(9) n by (rule addBookmark_surat_step)
      then have p: "perform c st = st(BOOKMARKS \<mapsto> ?v)"
        using AddBookmark surat by simp
      have h: "getHistory (st(BOOKMARKS \<mapsto> ?v)) = JArr hs"
        using inv(1) by (simp add: getHistory_upd_BOOKMARKS)
      show ?thesis
      proof (cases "\<exists>x \<in> set ss. nomor_of x = Some (JNum n)")
        case True
        then have v: "?v = JObj kvs" by simp
        have "surat_list (st(BOOKMARKS \<mapsto> JObj kvs)) = Some (JArr ss)"
             "ayat_list (st(BOOKMARKS \<mapsto> JObj kvs)) = Some (JArr vs)"
          by (simp_all add: surat_list_def ayat_list_def getBookmarks_upd kvs(2) kva)
        then show ?thesis
          unfolding incremental_inv_def p v
          using h [unfolded v] inv(2,3,5,7,8,9,10) by blast
      next
        case False
        then have v: "?v = JObj (set_field kvs ''surat'' (JArr (?new # ss)))" by simp
        let ?st = "st(BOOKMARKS \<mapsto> JObj (set_field kvs ''surat'' (JArr (?new # ss))))"
        have s: "surat_list ?st = Some (JArr (?new # ss))"
          by (simp add: surat_list_def getBookmarks_upd field_set_field)
        have a: "ayat_list ?st = Some (JArr vs)"
          by (simp add: ayat_list_def getBookmarks_upd field_set_field kva)
        have "nomor_of ?new \<notin> set (map nomor_of ss)"
          using False by (auto simp: surat_bookmark_nomor n)
        then have d: "distinct (map nomor_of (?new # ss))"
          using inv(5) by simp
        have nn: "JNull \<notin> set (?new # ss)"
          using inv(9) by (auto simp: surat_bookmark_def)
        show ?thesis
          unfolding incremental_inv_def p v
          using h [unfolded v] s a d nn inv(2,3,7,8,10) by blast
      qed
    next
      case ayat
      with assms(2) AddBookmark
      have "is_num (field d ''suratId'')" "is_num (field d ''nomorAyat'')"
        by simp_all
      then obtain s v where sv:
        "field d ''suratId'' = Some (JNum s)" "field d ''nomorAyat'' = Some (JNum v)"
        using is_numE by blast
      let ?new = "ayat_bookmark d now"
      let ?K = "(Some (JNum s), Some (JNum v))"
      let ?v = "if \<exists>x \<in> set vs. ayat_key x = ?K then JObj kvs
                else JObj (set_field kvs ''ayat'' (JArr (?new # vs)))"
      have "addBookmark ''ayat'' d now st = Inr (True, st(BOOKMARKS \<mapsto> ?v))"
        using kvs(1) kva inv(10) sv by (rule addBookmark_ayat_step)
      then have p: "perform c st = st(BOOKMARKS \<mapsto> ?v)"
        using AddBookmark ayat by simp
      have h: "getHistory (st(BOOKMARKS \<mapsto> ?v)) = JArr hs"
        using inv(1) by (simp add: getHistory_upd_BOOKMARKS)
      show ?thesis
      proof (cases "\<exists>x \<in> set vs. ayat_key x = ?K")
        case True
        then have v: "?v = JObj kvs" by simp
        have "surat_list (st(BOOKMARKS \<mapsto> JObj kvs)) = Some (JArr ss)"
             "ayat_list (st(BOOKMARKS \<mapsto> JObj kvs)) = Some (JArr vs)"
          by (simp_all add: surat_list_def ayat_list_def getBookmarks_upd kvs(2) kva)
        then show ?thesis
          unfolding incremental_inv_def p v
          using h [unfolded v] inv(2,3,5,7,8,9,10) by blast
      next
        case False
        then have v: "?v = JObj (set_field kvs ''ayat'' (JArr (?new # vs)))" by simp
        let ?st = "st(BOOKMARKS \<mapsto> JObj (set_field kvs ''ayat'' (JArr (?new # vs))))"
        have s: "surat_list ?st = Some (JArr ss)"
          by (simp add: surat_list_def getBookmarks_upd field_set_field kvs(2))
        have a: "ayat_list ?st = Some (JArr (?new # vs))"
          by (simp add: ayat_list_def getBookmarks_upd field_set_field)
        have "ayat_key ?new \<notin> set (map ayat_key vs)"
          using False by (auto simp: ayat_bookmark_key sv)
        then have d: "distinct (map ayat_key (?new # vs))"
          using inv(7) by simp
        have nn: "JNull \<notin> set (?new # vs)"
          using inv(10) by (auto simp: ayat_bookmark_def)
        show ?thesis
          unfolding incremental_inv_def p v
          using h [unfolded v] s a d nn inv(2,3,5,8,9) by blast
      qed
    next
      case other
      then have "addBookmark type d now st = Inr (True, st(BOOKMARKS \<mapsto> JObj kvs))"
        using kvs(1) by (simp add: addBookmark_def setItem_def)
      then have p: "perform c st = st(BOOKMARKS \<mapsto> JObj kvs)"
        using AddBookmark by simp
      have "surat_list (st(BOOKMARKS \<mapsto> JObj kvs)) = Some (JArr ss)"
           "ayat_list (st(BOOKMARKS \<mapsto> JObj kvs)) = Some (JArr vs)"
           "getHistory (st(BOOKMARKS \<mapsto> JObj kvs)) = JArr hs"
        using inv(1)
        by (simp_all add: surat_list_def ayat_list_def getBookmarks_upd kvs(2) kva
              getHistory_upd_BOOKMARKS)
      then show ?thesis
        unfolding incremental_inv_def p
        using inv(2,3,5,7,8,9,10) by blast
    qed
  qed
qed

lemma incremental_inv_perform_all:
  "incremental_inv st \<Longrightarrow> list_all typed_call calls \<Longrightarrow> incremental_inv (perform_all calls st)"
  by (induction calls arbitrary: st) (simp_all add: incremental_inv_perform)

lemma import_unchecked:
  "importData (Inr unchecked_payload) (initializeStorage Map.empty) =
     (True, (initializeStorage Map.empty)
        (BOOKMARKS \<mapsto> JObj
           [(''surat'', JArr [JObj [(''nomor'', JNum 1)], JObj [(''nomor'', JNum 1)]]),
            (''ayat'', JArr [JObj [(''suratId'', JNum 1), (''nomorAyat'', JNum 1)],
                             JObj [(''suratId'', JNum 1), (''nomorAyat'', JNum 1)]])],
         HISTORY \<mapsto> JArr (replicate 51 (JObj [(''nomor'', JNum 1)]))))"
  by (simp add: importData_def importData_try_def unchecked_payload_def get_prop_def
        setItem_def)

text \<open>
  C10. The payload \<open>unchecked_payload\<close> has a \<^verbatim>\<open>version\<close> and a \<^verbatim>\<open>bookmarks\<close> field, and
  its import into a fresh store succeeds and stores it as it comes: afterwards the
  history has 51 entries, all of one chapter, and each bookmark list holds one key
  twice. No run of \<^verbatim>\<open>addHistory\<close> and \<^verbatim>\<open>addBookmark\<close> calls with numeric ids reaches such
  a state from a fresh store: the history keeps at most 50 entries with distinct chapter
  ids, and the bookmark lists keep distinct keys.
\<close>

theorem importData_skips_incremental_invariants:
  "truthy_val (field unchecked_payload ''version'')
   \<and> truthy_val (field unchecked_payload ''bookmarks'')
   \<and> (\<exists>st'. importData (Inr unchecked_payload) (initializeStorage Map.empty) = (True, st')
         \<and> (\<exists>hs. getHistory st' = JArr hs \<and> 50 < length hs \<and> \<not> one_per_chapter hs)
         \<and> (\<exists>ss. surat_list st' = Some (JArr ss) \<and> \<not> distinct (map nomor_of ss))
         \<and> (\<exists>vs. ayat_list st' = Some (JArr vs) \<and> \<not> distinct (map ayat_key vs)))
   \<and> (list_all typed_call calls \<longrightarrow>
        (\<exists>hs ss vs. getHistory (perform_all calls (initializeStorage Map.empty)) = JArr hs
           \<and> length hs \<le> 50 \<and> one_per_chapter hs
           \<and> surat_list (perform_all calls (initializeStorage Map.empty)) = Some (JArr ss)
           \<and> distinct (map nomor_of ss)
           \<and> ayat_list (perform_all calls (initializeStorage Map.empty)) = Some (JArr vs)
           \<and> distinct (map ayat_key vs)))"
proof -
  let ?st = "(initializeStorage Map.empty)
        (BOOKMARKS \<mapsto> JObj
           [(''surat'', JArr [JObj [(''nomor'', JNum 1)], JObj [(''nomor'', JNum 1)]]),
            (''ayat'', JArr [JObj [(''suratId'', JNum 1), (''nomorAyat'', JNum 1)],
                             JObj [(''suratId'', JNum 1), (''nomorAyat'', JNum 1)]])],
         HISTORY \<mapsto> JArr (replicate 51 (JObj [(''nomor'', JNum 1)])))"
  have v: "truthy_val (field unchecked_payload ''version'')"
    "truthy_val (field unchecked_payload ''bookmarks'')"
    by (simp_all add: unchecked_payload_def)
  have h: "getHistory ?st = JArr (replicate 51 (JObj [(''nomor'', JNum 1)]))"
    by (rule getHistory_upd)
  have h1: "50 < length (replicate 51 (JObj [(''nomor'', JNum 1)]))" by simp
  have h2: "\<not> one_per_chapter (replicate 51 (JObj [(''nomor'', JNum 1)]))"
    by (simp add: one_per_chapter_def not_distinct_replicate)
  have b: "getBookmarks ?st = JObj
           [(''surat'', JArr [JObj [(''nomor'', JNum 1)], JObj [(''nomor'', JNum 1)]]),
            (''ayat'', JArr [JObj [(''suratId'', JNum 1), (''nomorAyat'', JNum 1)],
                             JObj [(''suratId'', JNum 1), (''nomorAyat'', JNum 1)]])]"
    using BOOKMARKS_neq_HISTORY by (simp add: getBookmarks_def getItem_def or_else_def)
  have s: "surat_list ?st = Some (JArr [JObj [(''nomor'', JNum 1)], JObj [(''nomor'', JNum 1)]])"
    "\<not> distinct (map nomor_of [JObj [(''nomor'', JNum 1)], JObj [(''nomor'', JNum 1)]])"
    by (simp_all add: surat_list_def b)
  have a: "ayat_list ?st = Some (JArr [JObj [(''suratId'', JNum 1), (''nomorAyat'', JNum 1)],
                             JObj [(''suratId'', JNum 1), (''nomorAyat'', JNum 1)]])"
    "\<not> distinct (map ayat_key [JObj [(''suratId'', JNum 1), (''nomorAyat'', JNum 1)],
                             JObj [(''suratId'', JNum 1), (''nomorAyat'', JNum 1)]])"
    by (simp_all add: ayat_list_def b)
  have i: "\<exists>st'. importData (Inr unchecked_payload) (initializeStorage Map.empty) = (True, st')
         \<and> (\<exists>hs. getHistory st' = JArr hs \<and> 50 < length hs \<and> \<not> one_per_chapter hs)
         \<and> (\<exists>ss. surat_list st' = Some (JArr ss) \<and> \<not> distinct (map nomor_of ss))
         \<and> (\<exists>vs. ayat_list st' = Some (JArr vs) \<and> \<not> distinct (map ayat_key vs))"
    using import_unchecked h h1 h2 s a by blast
  have "list_all typed_call calls \<longrightarrow> incremental_inv (perform_all calls (initializeStorage Map.empty))"
    using incremental_inv_perform_all [OF incremental_inv_init] by blast
  then have p: "list_all typed_call calls \<longrightarrow>
        (\<exists>hs ss vs. getHistory (perform_all calls (initializeStorage Map.empty)) = JArr hs
           \<and> length hs \<le> 50 \<and> one_per_chapter hs
           \<and> surat_list (perform_all calls (initializeStorage Map.empty)) = Some (JArr ss)
           \<and> distinct (map nomor_of ss)
           \<and> ayat_list (perform_all calls (initializeStorage Map.empty)) = Some (JArr vs)
           \<and> distinct (map ayat_key vs))"
    unfolding incremental_inv_def by blast
  from v i p show ?thesis by blast
qed

theorem importData_skips_incremental_invariants_witness:
  "list_all typed_call [AddHistory (surat 1 ''al-Fatihah'' ''Al-Fatihah'') 10,
                        AddBookmark ''ayat'' first_verse 20,
                        AddHistory (surat 1 ''al-Fatihah'' ''Al-Fatihah'') 30]
   \<and> (\<exists>hs. getHistory (perform_all [AddHistory (surat 1 ''al-Fatihah'' ''Al-Fatihah'') 10,
                        AddBookmark ''ayat'' first_verse 20,
                        AddHistory (surat 1 ''al-Fatihah'' ''Al-Fatihah'') 30]
              (initializeStorage Map.empty)) = JArr hs
         \<and> length hs \<le> 50 \<and> one_per_chapter hs)"
proof -
  have t: "list_all typed_call [AddHistory (surat 1 ''al-Fatihah'' ''Al-Fatihah'') 10,
                        AddBookmark ''ayat'' first_verse 20,
                        AddHistory (surat 1 ''al-Fatihah'' ''Al-Fatihah'') 30]"
    by (simp add: surat_def first_verse_def is_num_def)
  from importData_skips_incremental_invariants
         [of "[AddHistory (surat 1 ''al-Fatihah'' ''Al-Fatihah'') 10,
               AddBookmark ''ayat'' first_verse 20,
               AddHistory (surat 1 ''al-Fatihah'' ''Al-Fatihah'') 30]"] t
  show ?thesis by blast
qed

end
